theory Spec2Isabelle
  imports Main
begin

section \<open>Python values and built-ins used by bot.py\<close>

text \<open>
  The bot keeps all of its state in two Google Sheets worksheets and reads a worksheet as
  \<open>get_all_values()\<close>: a list of rows, each a list of cell strings, the first row being
  the header. A user record is a Python \<open>dict\<close> from column name to a value that is a
  string, an int, a bool or \<open>None\<close>.
\<close>

type_synonym row = "string list"
type_synonym sheet = "row list"

datatype pyval = PStr string | PInt int | PBool bool | PNone

type_synonym user_data = "string \<rightharpoonup> pyval"

datatype py_error = IndexError | KeyError

text \<open>\<open>d.get(k, default)\<close>.\<close>

definition dict_get :: "user_data \<Rightarrow> string \<Rightarrow> pyval \<Rightarrow> pyval" where
  "dict_get d k dflt = (case d k of None \<Rightarrow> dflt | Some v \<Rightarrow> v)"

text \<open>Truth value of a Python object, as \<open>if x:\<close> takes it.\<close>

fun py_truthy :: "pyval \<Rightarrow> bool" where
  "py_truthy (PStr s) = (s \<noteq> [])"
| "py_truthy (PInt i) = (i \<noteq> 0)"
| "py_truthy (PBool b) = b"
| "py_truthy PNone = False"

text \<open>\<open>xs[i]\<close>: a negative index counts from the end, out of range raises IndexError.\<close>

definition py_index :: "'a list \<Rightarrow> int \<Rightarrow> 'a option" where
  "py_index xs i =
     (let n = int (length xs); j = (if i < 0 then n + i else i)
      in if 0 \<le> j \<and> j < n then Some (xs ! nat j) else None)"

subsection \<open>\<open>str\<close> of a value\<close>

definition digit_char :: "nat \<Rightarrow> char" where
  "digit_char d = char_of (48 + d)"

function str_nat :: "nat \<Rightarrow> string" where
  "str_nat n = (if n < 10 then [digit_char n] else str_nat (n div 10) @ [digit_char (n mod 10)])"
  by pat_completeness auto
termination
  by (relation "measure id") auto

declare str_nat.simps [simp del]

definition str_int :: "int \<Rightarrow> string" where
  "str_int i = (if i < 0 then CHR ''-'' # str_nat (nat (- i)) else str_nat (nat i))"

fun py_str :: "pyval \<Rightarrow> string" where
  "py_str (PStr s) = s"
| "py_str (PInt i) = str_int i"
| "py_str (PBool b) = (if b then ''True'' else ''False'')"
| "py_str PNone = ''None''"

subsection \<open>\<open>int\<close> of a string, \<open>str.lower\<close>\<close>

text \<open>
  \<open>int(s)\<close> on code points below 256: surrounding whitespace is stripped, one sign is
  allowed, then decimal digits, where single underscores may separate digits. Anything
  else raises ValueError, here \<open>None\<close>. The whitespace \<open>int\<close> strips is tab to carriage
  return (9 to 13), the space, and the two spaces above ASCII, NEL (133) and the
  no-break space (160); the separators 28 to 31 are not stripped.
\<close>

definition is_digit :: "char \<Rightarrow> bool" where
  "is_digit c = (let n = (of_char c :: nat) in 48 \<le> n \<and> n \<le> 57)"

definition digit_val :: "char \<Rightarrow> nat" where
  "digit_val c = of_char c - 48"

definition is_space :: "char \<Rightarrow> bool" where
  "is_space c =
     (let n = (of_char c :: nat) in (9 \<le> n \<and> n \<le> 13) \<or> n = 32 \<or> n = 133 \<or> n = 160)"

definition strip :: "string \<Rightarrow> string" where
  "strip s = rev (dropWhile is_space (rev (dropWhile is_space s)))"

fun parse_digits :: "nat \<Rightarrow> bool \<Rightarrow> string \<Rightarrow> nat option" where
  "parse_digits a after_digit [] = (if after_digit then Some a else None)"
| "parse_digits a after_digit (c # cs) =
     (if is_digit c then parse_digits (10 * a + digit_val c) True cs
      else if c = CHR ''_'' \<and> after_digit then parse_digits a False cs
      else None)"

definition py_int :: "string \<Rightarrow> int option" where
  "py_int s =
     (case strip s of
        [] \<Rightarrow> None
      | c # cs \<Rightarrow>
          if c = CHR ''-'' then map_option (\<lambda>n. - int n) (parse_digits 0 False cs)
          else if c = CHR ''+'' then map_option int (parse_digits 0 False cs)
          else map_option int (parse_digits 0 False (c # cs)))"

text \<open>\<open>int(x)\<close> where \<open>x\<close> is a cell string or the int default of \<open>dict.get\<close>.\<close>

fun py_int_of :: "pyval \<Rightarrow> int option" where
  "py_int_of (PStr s) = py_int s"
| "py_int_of (PInt i) = Some i"
| "py_int_of (PBool b) = Some (if b then 1 else 0)"
| "py_int_of PNone = None"

definition lower_char :: "char \<Rightarrow> char" where
  "lower_char c =
     (let n = (of_char c :: nat) in if 65 \<le> n \<and> n \<le> 90 then char_of (n + 32) else c)"

definition py_lower :: "string \<Rightarrow> string" where
  "py_lower s = map lower_char s"

section \<open>The users worksheet\<close>

definition HEADERS :: row where
  "HEADERS = [''user_id'', ''username'', ''current_lesson'', ''paused'',
              ''last_lesson_sent'', ''completed'', ''created_at'']"

text \<open>\<open>row and row[0] == user_id\<close>.\<close>

fun row_matches :: "string \<Rightarrow> row \<Rightarrow> bool" where
  "row_matches user_id [] = False"
| "row_matches user_id (c # cs) = (c = user_id)"

text \<open>
  Both functions scan \<open>all_values[1:]\<close> for the first row whose first cell is the user id;
  \<open>find_row\<close> is that loop and returns the position in \<open>all_values[1:]\<close>.
\<close>

fun find_row :: "string \<Rightarrow> row list \<Rightarrow> nat option" where
  "find_row user_id [] = None"
| "find_row user_id (r # rs) =
     (if row_matches user_id r then Some 0 else map_option Suc (find_row user_id rs))"

text \<open>\<open>dict(zip(headers, row))\<close>: a later duplicate of a header wins.\<close>

definition dict_zip :: "row \<Rightarrow> row \<Rightarrow> user_data" where
  "dict_zip headers r = map_of (rev (zip headers (map PStr r)))"

text \<open>
  The three type conversions of \<open>get_user_from_sheet\<close>; a \<open>current_lesson\<close> cell that
  \<open>int\<close> rejects raises ValueError, which the function catches and answers \<open>None\<close>.
\<close>

definition convert_types :: "user_data \<Rightarrow> user_data option" where
  "convert_types d =
     (case py_int_of (dict_get d ''current_lesson'' (PInt 0)) of
        None \<Rightarrow> None
      | Some n \<Rightarrow>
          Some (d(''current_lesson'' \<mapsto> PInt n,
                  ''paused'' \<mapsto>
                     PBool (py_lower (py_str (dict_get d ''paused'' (PStr ''False''))) = ''true''),
                  ''completed'' \<mapsto>
                     PBool (py_lower (py_str (dict_get d ''completed'' (PStr ''False''))) = ''true''))))"

text \<open>
  The worksheet handle is \<open>None\<close> when \<open>init_google_sheets\<close> failed. A call of the Sheets
  API on a connected worksheet is taken to complete.
\<close>

definition get_user_from_sheet :: "sheet option \<Rightarrow> string \<Rightarrow> user_data option" where
  "get_user_from_sheet users_sheet user_id =
     (case users_sheet of
        None \<Rightarrow> None
      | Some all_values \<Rightarrow>
          if length all_values \<le> 1 then None
          else (case find_row user_id (tl all_values) of
                  None \<Rightarrow> None
                | Some k \<Rightarrow> convert_types (dict_zip (hd all_values) (tl all_values ! k))))"

definition row_data :: "string \<Rightarrow> user_data \<Rightarrow> row" where
  "row_data now d =
     [py_str (dict_get d ''user_id'' (PStr '''')),
      py_str (dict_get d ''username'' (PStr '''')),
      py_str (dict_get d ''current_lesson'' (PInt 0)),
      py_str (dict_get d ''paused'' (PBool False)),
      py_str (dict_get d ''last_lesson_sent'' (PStr '''')),
      py_str (dict_get d ''completed'' (PBool False)),
      py_str (dict_get d ''created_at'' (PStr now))]"

text \<open>
  \<open>save_user_to_sheet\<close>. The header row is appended when the sheet has none; the search
  for the user's row runs on the values read before that. \<open>update("Ai:Gi", [row_data])\<close>
  overwrites the first seven cells of row \<open>i\<close> and leaves any further cell.
\<close>

definition save_user_to_sheet :: "string \<Rightarrow> sheet option \<Rightarrow> user_data \<Rightarrow> sheet option" where
  "save_user_to_sheet now users_sheet d =
     (case users_sheet of
        None \<Rightarrow> None
      | Some all_values \<Rightarrow>
          let headers = (if all_values \<noteq> [] then hd all_values else []);
              sheet1 = (if headers = [] then all_values @ [HEADERS] else all_values);
              user_id = py_str (dict_get d ''user_id'' PNone)
          in (case find_row user_id (tl all_values) of
                Some k \<Rightarrow> Some (sheet1[Suc k := row_data now d @ drop 7 (sheet1 ! Suc k)])
              | None \<Rightarrow> Some (sheet1 @ [row_data now d])))"

section \<open>The responses worksheet\<close>

definition save_response_to_sheet ::
  "string \<Rightarrow> sheet option \<Rightarrow> string \<Rightarrow> string \<Rightarrow> int \<Rightarrow> string \<Rightarrow> string \<Rightarrow> string \<Rightarrow> sheet option"
where
  "save_response_to_sheet now responses_sheet user_id username lesson_index lesson_title
       response_text response_type =
     (case responses_sheet of
        None \<Rightarrow> None
      | Some rows \<Rightarrow>
          Some (rows @ [[now, user_id, username, str_int lesson_index, lesson_title,
                         response_text, response_type]]))"

section \<open>Lessons, updates and the world the handlers act on\<close>

text \<open>
  Modelled from the spec: the module \<open>lessons\<close> that defines \<open>LESSONS\<close> is not part of
  the sources. A lesson is the spec's LessonRecord (title, body, isFinal), read by the
  code as \<open>lesson['title']\<close>, \<open>lesson['text']\<close> and \<open>lesson.get("is_final")\<close>; the catalog
  itself is a parameter \<open>LESSONS\<close> of every function that reads it.
\<close>

record lesson =
  title :: string
  body :: string
  is_final :: bool

text \<open>
  What a handler reads from a Telegram \<open>Update\<close>: \<open>effective_user.id\<close>,
  \<open>effective_user.username\<close>, and of \<open>update.message\<close> the text, whether \<open>photo\<close> is
  non-empty, whether \<open>voice\<close> is set, and the document (\<open>Some fn\<close> with its optional
  \<open>file_name\<close>). \<open>command\<close> is the bot command the message carries, if any, and
  \<open>begin_button\<close> says that the text is the label of the "begin course" button, which
  \<open>main\<close> matches with a regular expression.
\<close>

record update =
  effective_user_id :: int
  effective_username :: "string option"
  message_text :: "string option"
  message_photo :: bool
  message_voice :: bool
  message_document :: "string option option"
  command :: "string option"
  begin_button :: bool

text \<open>
  The texts the bot sends. The fixed notices are Russian sentences in the source and are
  kept apart by name; a lesson message carries \<open>f"{title}\n\n{text}"\<close>.
\<close>

datatype notice =
    Welcome | PleaseStart | CoursePaused | NextLessonSoon | TimerError | ThanksFeedback
  | ThanksVoice | ThanksDocument | CourseResumed | CourseAlreadyCompleted | StartFirst

datatype message = Notice notice | LessonMessage string

text \<open>
  Where a message goes: \<open>update.message.reply_text\<close> answers the update of a user,
  \<open>context.bot.send_message(chat_id=int(user_id))\<close> writes to a chat.
\<close>

datatype target = ReplyTo int | ChatId int

record job =
  job_when :: nat
  job_user_id :: string
  job_lesson_index :: int

text \<open>
  The state a handler reads and writes: the two worksheets, the messages that reached
  the transport, and the jobs \<open>job_queue.run_once\<close> has accepted. Logging is not part of
  the state.
\<close>

record world =
  users_sheet :: "sheet option"
  responses_sheet :: "sheet option"
  outbox :: "(target \<times> message) list"
  job_queue :: "job list"

text \<open>
  What the surroundings decide during one run of a handler: the clock
  (\<open>datetime.now().isoformat()\<close>), whether the send of a lesson succeeds, and whether
  \<open>run_once\<close> accepts the job. These are the two failures the handlers catch themselves;
  a notice sent with \<open>reply_text\<close> outside a \<open>try\<close> is taken to arrive.
\<close>

record env =
  now :: string
  send_ok :: bool
  arm_ok :: bool

definition reply :: "update \<Rightarrow> notice \<Rightarrow> world \<Rightarrow> world" where
  "reply upd n w = w\<lparr>outbox := outbox w @ [(ReplyTo (effective_user_id upd), Notice n)]\<rparr>"

text \<open>\<open>update.effective_user.username or "unknown"\<close>.\<close>

definition username_of :: "update \<Rightarrow> string" where
  "username_of upd =
     (case effective_username upd of
        None \<Rightarrow> ''unknown''
      | Some s \<Rightarrow> if s = [] then ''unknown'' else s)"

section \<open>The handlers\<close>

definition start_data :: "env \<Rightarrow> update \<Rightarrow> user_data" where
  "start_data e upd =
     [''user_id'' \<mapsto> PStr (str_int (effective_user_id upd)),
      ''username'' \<mapsto> PStr (username_of upd),
      ''current_lesson'' \<mapsto> PInt 0,
      ''paused'' \<mapsto> PBool False,
      ''last_lesson_sent'' \<mapsto> PNone,
      ''completed'' \<mapsto> PBool False,
      ''created_at'' \<mapsto> PStr (now e)]"

definition start :: "env \<Rightarrow> update \<Rightarrow> world \<Rightarrow> world" where
  "start e upd w =
     (let user_data = start_data e upd;
          w1 = w\<lparr>users_sheet := save_user_to_sheet (now e) (users_sheet w) user_data\<rparr>
      in reply upd Welcome w1)"

text \<open>
  \<open>send_lesson\<close>. \<open>via\<close> is the first argument: an update (answer with \<open>reply_text\<close>) or
  \<open>None\<close> from the job (write to \<open>int(user_id)\<close>; a user id that is no number raises
  inside the \<open>try\<close> and counts as a failed send). The record is saved with the new
  \<open>current_lesson\<close> before the send; after a failed send the function returns.
\<close>

definition lesson_message :: "lesson \<Rightarrow> string" where
  "lesson_message l = title l @ [CHR 0x0A, CHR 0x0A] @ body l"

definition send_target :: "env \<Rightarrow> update option \<Rightarrow> string \<Rightarrow> target option" where
  "send_target e via user_id =
     (case via of
        Some upd \<Rightarrow> if send_ok e then Some (ReplyTo (effective_user_id upd)) else None
      | None \<Rightarrow>
          (case py_int user_id of
             None \<Rightarrow> None
           | Some chat \<Rightarrow> if send_ok e then Some (ChatId chat) else None))"

definition send_lesson ::
  "lesson list \<Rightarrow> env \<Rightarrow> update option \<Rightarrow> string \<Rightarrow> int \<Rightarrow> world \<Rightarrow> py_error + world"
where
  "send_lesson LESSONS e via user_id lesson_index w =
     (if LESSONS = [] then Inr w
      else if lesson_index \<ge> int (length LESSONS) then Inr w
      else (case py_index LESSONS lesson_index of
              None \<Rightarrow> Inl IndexError
            | Some lesson \<Rightarrow>
                (case get_user_from_sheet (users_sheet w) user_id of
                   None \<Rightarrow> Inr w
                 | Some user_data \<Rightarrow>
                     if py_truthy (dict_get user_data ''paused'' (PBool False)) then Inr w
                     else
                       let user_data1 = user_data(''current_lesson'' \<mapsto> PInt lesson_index);
                           w1 = w\<lparr>users_sheet :=
                                    save_user_to_sheet (now e) (users_sheet w) user_data1\<rparr>
                       in (case send_target e via user_id of
                             None \<Rightarrow> Inr w1
                           | Some t \<Rightarrow>
                               let w2 = w1\<lparr>outbox :=
                                             outbox w1 @ [(t, LessonMessage (lesson_message lesson))]\<rparr>
                               in if is_final lesson
                                  then Inr (w2\<lparr>users_sheet :=
                                                save_user_to_sheet (now e) (users_sheet w2)
                                                  (user_data1(''completed'' \<mapsto> PBool True))\<rparr>)
                                  else Inr w2))))"

definition send_lesson_job :: "lesson list \<Rightarrow> env \<Rightarrow> job \<Rightarrow> world \<Rightarrow> py_error + world" where
  "send_lesson_job LESSONS e j w = send_lesson LESSONS e None (job_user_id j) (job_lesson_index j) w"

definition handle_start_course :: "lesson list \<Rightarrow> env \<Rightarrow> update \<Rightarrow> world \<Rightarrow> py_error + world" where
  "handle_start_course LESSONS e upd w =
     (let user_id = str_int (effective_user_id upd) in
      case get_user_from_sheet (users_sheet w) user_id of
        None \<Rightarrow> Inr (reply upd PleaseStart w)
      | Some user_data \<Rightarrow>
          if py_truthy (dict_get user_data ''paused'' (PBool False))
          then Inr (reply upd CoursePaused w)
          else
            let user_data1 = user_data(''paused'' \<mapsto> PBool False,
                                       ''last_lesson_sent'' \<mapsto> PStr (now e));
                w1 = w\<lparr>users_sheet := save_user_to_sheet (now e) (users_sheet w) user_data1\<rparr>
            in send_lesson LESSONS e (Some upd) user_id 0 w1)"

text \<open>
  The classification of a reply in \<open>handle_response\<close>. The source's bracketed Russian
  labels for photo, voice message and document are written in Latin letters here.
\<close>

definition classify :: "update \<Rightarrow> string \<times> string" where
  "classify upd =
     (if message_photo upd then (''[PHOTO]'', ''photo'')
      else if message_voice upd then (''[VOICE MESSAGE]'', ''voice'')
      else if message_document upd \<noteq> None then (''[DOCUMENT]'', ''document'')
      else (case message_text upd of None \<Rightarrow> [] | Some s \<Rightarrow> s, ''text''))"

text \<open>
  The common head of the three reply handlers: the record must exist, its
  \<open>current_lesson\<close> must not be \<open>-1\<close> and must be below \<open>len(LESSONS)\<close>; then
  \<open>LESSONS[current_lesson]\<close> is read. \<open>None\<close> stands for the plain \<open>return\<close>.
\<close>

definition current_of ::
  "lesson list \<Rightarrow> world \<Rightarrow> string \<Rightarrow> py_error + (user_data \<times> int \<times> lesson) option"
where
  "current_of LESSONS w user_id =
     (case get_user_from_sheet (users_sheet w) user_id of
        None \<Rightarrow> Inr None
      | Some user_data \<Rightarrow>
          if dict_get user_data ''current_lesson'' (PInt (- 1)) = PInt (- 1) then Inr None
          else (case user_data ''current_lesson'' of
                  Some (PInt current_lesson_index) \<Rightarrow>
                    if current_lesson_index \<ge> int (length LESSONS) then Inr None
                    else (case py_index LESSONS current_lesson_index of
                            None \<Rightarrow> Inl IndexError
                          | Some lesson \<Rightarrow> Inr (Some (user_data, current_lesson_index, lesson)))
                | _ \<Rightarrow> Inl KeyError))"

definition handle_response :: "lesson list \<Rightarrow> env \<Rightarrow> update \<Rightarrow> world \<Rightarrow> py_error + world" where
  "handle_response LESSONS e upd w =
     (let user_id = str_int (effective_user_id upd);
          username = username_of upd
      in case current_of LESSONS w user_id of
           Inl err \<Rightarrow> Inl err
         | Inr None \<Rightarrow> Inr w
         | Inr (Some (user_data, current_lesson_index, lesson)) \<Rightarrow>
             let (response_text, response_type) = classify upd;
                 w1 = w\<lparr>responses_sheet :=
                          save_response_to_sheet (now e) (responses_sheet w) user_id username
                            current_lesson_index (title lesson) response_text response_type\<rparr>
             in if \<not> is_final lesson then
                  let next_lesson_index = current_lesson_index + 1;
                      user_data1 = user_data(''current_lesson'' \<mapsto> PInt next_lesson_index,
                                             ''last_lesson_sent'' \<mapsto> PStr (now e));
                      w2 = w1\<lparr>users_sheet :=
                               save_user_to_sheet (now e) (users_sheet w1) user_data1\<rparr>
                  in if arm_ok e
                     then Inr (reply upd NextLessonSoon
                                 (w2\<lparr>job_queue := job_queue w2 @
                                        [\<lparr>job_when = 5, job_user_id = user_id,
                                          job_lesson_index = next_lesson_index\<rparr>]\<rparr>))
                     else Inr (reply upd TimerError w2)
                else Inr (reply upd ThanksFeedback w1))"

definition handle_voice :: "lesson list \<Rightarrow> env \<Rightarrow> update \<Rightarrow> world \<Rightarrow> py_error + world" where
  "handle_voice LESSONS e upd w =
     (let user_id = str_int (effective_user_id upd);
          username = username_of upd
      in case current_of LESSONS w user_id of
           Inl err \<Rightarrow> Inl err
         | Inr None \<Rightarrow> Inr w
         | Inr (Some (user_data, current_lesson_index, lesson)) \<Rightarrow>
             Inr (reply upd ThanksVoice
                    (w\<lparr>responses_sheet :=
                         save_response_to_sheet (now e) (responses_sheet w) user_id username
                           current_lesson_index (title lesson) ''[VOICE MESSAGE]'' ''voice''\<rparr>)))"

text \<open>
  \<open>handle_document\<close> writes the file name into the response text; a document without a
  file name prints as \<open>None\<close>. The source's Russian fallback word for a message without
  a document, which the handler table never lets through, is written \<open>Document\<close>.
\<close>

definition document_name :: "update \<Rightarrow> string" where
  "document_name upd =
     (case message_document upd of
        None \<Rightarrow> ''Document''
      | Some None \<Rightarrow> ''None''
      | Some (Some fn) \<Rightarrow> fn)"

definition handle_document :: "lesson list \<Rightarrow> env \<Rightarrow> update \<Rightarrow> world \<Rightarrow> py_error + world" where
  "handle_document LESSONS e upd w =
     (let user_id = str_int (effective_user_id upd);
          username = username_of upd
      in case current_of LESSONS w user_id of
           Inl err \<Rightarrow> Inl err
         | Inr None \<Rightarrow> Inr w
         | Inr (Some (user_data, current_lesson_index, lesson)) \<Rightarrow>
             Inr (reply upd ThanksDocument
                    (w\<lparr>responses_sheet :=
                         save_response_to_sheet (now e) (responses_sheet w) user_id username
                           current_lesson_index (title lesson)
                           (''[DOCUMENT: '' @ document_name upd @ '']'') ''document''\<rparr>)))"

definition pause :: "env \<Rightarrow> update \<Rightarrow> world \<Rightarrow> world" where
  "pause e upd w =
     (let user_id = str_int (effective_user_id upd) in
      case get_user_from_sheet (users_sheet w) user_id of
        Some user_data \<Rightarrow>
          reply upd CoursePaused
            (w\<lparr>users_sheet :=
                 save_user_to_sheet (now e) (users_sheet w) (user_data(''paused'' \<mapsto> PBool True))\<rparr>)
      | None \<Rightarrow> reply upd StartFirst w)"

definition resume :: "lesson list \<Rightarrow> env \<Rightarrow> update \<Rightarrow> world \<Rightarrow> py_error + world" where
  "resume LESSONS e upd w =
     (let user_id = str_int (effective_user_id upd) in
      case get_user_from_sheet (users_sheet w) user_id of
        Some user_data \<Rightarrow>
          (let user_data1 = user_data(''paused'' \<mapsto> PBool False);
               w1 = w\<lparr>users_sheet := save_user_to_sheet (now e) (users_sheet w) user_data1\<rparr>
           in case user_data1 ''current_lesson'' of
                Some (PInt current_lesson) \<Rightarrow>
                  let w2 = reply upd CourseResumed w1
                  in if py_truthy (dict_get user_data1 ''completed'' (PBool False))
                     then Inr (reply upd CourseAlreadyCompleted w2)
                     else send_lesson LESSONS e (Some upd) user_id current_lesson w2
              | _ \<Rightarrow> Inl KeyError)
      | None \<Rightarrow> Inr (reply upd StartFirst w))"

text \<open>
  The handler table of \<open>main\<close>, in its order: the first handler whose filter accepts the
  update runs. \<open>filters.TEXT\<close> accepts a message with a non-empty text, so a command
  other than the three registered ones is a reply.
\<close>

definition handle_update :: "lesson list \<Rightarrow> env \<Rightarrow> update \<Rightarrow> world \<Rightarrow> py_error + world" where
  "handle_update LESSONS e upd w =
     (if command upd = Some ''start'' then Inr (start e upd w)
      else if command upd = Some ''pause'' then Inr (pause e upd w)
      else if command upd = Some ''resume'' then resume LESSONS e upd w
      else if begin_button upd then handle_start_course LESSONS e upd w
      else if message_text upd \<noteq> None \<and> message_text upd \<noteq> Some []
        then handle_response LESSONS e upd w
      else if message_photo upd then handle_response LESSONS e upd w
      else if message_voice upd then handle_voice LESSONS e upd w
      else if message_document upd \<noteq> None then handle_document LESSONS e upd w
      else Inr w)"

text \<open>The record the store holds for a user.\<close>

definition stored :: "world \<Rightarrow> string \<Rightarrow> user_data option" where
  "stored w user_id = get_user_from_sheet (users_sheet w) user_id"

text \<open>
  Two notions for the proofs. \<open>typed_record\<close> describes a record as
  \<open>get_user_from_sheet\<close> returns it from a sheet with the bot's header row:
  \<open>current_lesson\<close> is an int, \<open>paused\<close> and \<open>completed\<close> are bools, every other
  entry is a cell string under one of the seven column names. \<open>reload t d\<close> is the
  record read back from the row that \<open>save_user_to_sheet\<close> writes for \<open>d\<close> at time
  \<open>t\<close>.
\<close>

definition typed_record :: "user_data \<Rightarrow> bool" where
  "typed_record d \<longleftrightarrow>
     (\<exists>n. d ''current_lesson'' = Some (PInt n)) \<and>
     (\<exists>b. d ''paused'' = Some (PBool b)) \<and>
     (\<exists>b. d ''completed'' = Some (PBool b)) \<and>
     (\<forall>k v. d k = Some v \<longrightarrow>
        k \<in> set HEADERS \<and>
        (k \<noteq> ''current_lesson'' \<and> k \<noteq> ''paused'' \<and> k \<noteq> ''completed'' \<longrightarrow> (\<exists>s. v = PStr s)))"

definition reload :: "string \<Rightarrow> user_data \<Rightarrow> user_data option" where
  "reload t d = convert_types (dict_zip HEADERS (row_data t d))"

section \<open>Example data\<close>

text \<open>
  A catalog of three lessons whose last one is final, and a users sheet with the header
  row and one row for user 7, whose \<open>current_lesson\<close>, \<open>paused\<close> and \<open>completed\<close> cells
  are given. The theorems below are instantiated and the counterexamples are computed
  on these.
\<close>

definition demo_lessons :: "lesson list" where
  "demo_lessons =
     [\<lparr>title = ''Lesson 1'', body = ''Colour'', is_final = False\<rparr>,
      \<lparr>title = ''Lesson 2'', body = ''Light'', is_final = False\<rparr>,
      \<lparr>title = ''Lesson 3'', body = ''Space'', is_final = True\<rparr>]"

definition demo_row :: "string \<Rightarrow> string \<Rightarrow> string \<Rightarrow> row" where
  "demo_row current_lesson paused completed =
     [''7'', ''bob'', current_lesson, paused, ''None'', completed, ''t0'']"

definition demo_world :: "string \<Rightarrow> string \<Rightarrow> string \<Rightarrow> world" where
  "demo_world current_lesson paused completed =
     \<lparr>users_sheet = Some [HEADERS, demo_row current_lesson paused completed],
      responses_sheet = Some [], outbox = [], job_queue = []\<rparr>"

definition demo_env :: "bool \<Rightarrow> env" where
  "demo_env ok = \<lparr>now = ''t1'', send_ok = ok, arm_ok = True\<rparr>"

text \<open>Updates of user 7: a text message, a voice message, a document.\<close>

definition demo_text :: update where
  "demo_text =
     \<lparr>effective_user_id = 7, effective_username = Some ''bob'', message_text = Some ''done'',
      message_photo = False, message_voice = False, message_document = None,
      command = None, begin_button = False\<rparr>"

definition demo_voice :: update where
  "demo_voice = demo_text\<lparr>message_text := None, message_voice := True\<rparr>"

definition demo_document :: update where
  "demo_document = demo_text\<lparr>message_text := None, message_document := Some (Some ''plan.pdf'')\<rparr>"

section \<open>\<open>int(str(n))\<close> gives \<open>n\<close> back\<close>

text \<open>
  A number the bot writes into a cell with \<open>str\<close> is read back by \<open>int\<close> as the same
  number, and a truth value written with \<open>str\<close> is read back by the comparison of its
  lower-case form with \<open>"true"\<close>.
\<close>

lemma of_char_digit_char: "d < 10 \<Longrightarrow> (of_char (digit_char d) :: nat) = 48 + d"
  by (simp add: digit_char_def)

lemma is_digit_digit_char: "d < 10 \<Longrightarrow> is_digit (digit_char d)"
  by (simp add: is_digit_def of_char_digit_char)

lemma digit_val_digit_char: "d < 10 \<Longrightarrow> digit_val (digit_char d) = d"
  by (simp add: digit_val_def of_char_digit_char)

lemma str_nat_digits: "\<forall>c \<in> set (str_nat n). is_digit c"
proof (induction n rule: str_nat.induct)
  case (1 n)
  show ?case
  proof (cases "n < 10")
    case True
    then show ?thesis by (subst str_nat.simps) (simp add: is_digit_digit_char)
  next
    case False
    with 1 show ?thesis by (subst str_nat.simps) (simp add: is_digit_digit_char)
  qed
qed

lemma str_nat_nonempty: "str_nat n \<noteq> []"
  by (subst str_nat.simps) simp

lemma parse_digits_append:
  "\<forall>c \<in> set xs. is_digit c \<Longrightarrow>
   parse_digits a p (xs @ ys) =
     parse_digits (fold (\<lambda>c a. 10 * a + digit_val c) xs a) (p \<or> xs \<noteq> []) ys"
  by (induction xs arbitrary: a p) auto

lemma fold_str_nat: "fold (\<lambda>c a. 10 * a + digit_val c) (str_nat n) 0 = n"
proof (induction n rule: str_nat.induct)
  case (1 n)
  show ?case
  proof (cases "n < 10")
    case True
    then show ?thesis by (subst str_nat.simps) (simp add: digit_val_digit_char)
  next
    case False
    with 1 show ?thesis by (subst str_nat.simps) (simp add: digit_val_digit_char)
  qed
qed

lemma parse_digits_str_nat: "parse_digits 0 False (str_nat n) = Some n"
  using parse_digits_append [OF str_nat_digits, of 0 False n "[]"]
  by (simp add: fold_str_nat str_nat_nonempty)

lemma is_digit_not_space: "is_digit c \<Longrightarrow> \<not> is_space c"
  by (auto simp: is_digit_def is_space_def Let_def)

lemma is_digit_not_sign: "is_digit c \<Longrightarrow> c \<noteq> CHR ''-'' \<and> c \<noteq> CHR ''+''"
  by (auto simp: is_digit_def)

lemma strip_id: "s \<noteq> [] \<Longrightarrow> \<not> is_space (hd s) \<Longrightarrow> \<not> is_space (last s) \<Longrightarrow> strip s = s"
proof -
  assume a: "s \<noteq> []" "\<not> is_space (hd s)" "\<not> is_space (last s)"
  from a have 1: "dropWhile is_space s = s"
    by (simp add: dropWhile_eq_self_iff)
  from a have 2: "dropWhile is_space (rev s) = rev s"
    by (simp add: dropWhile_eq_self_iff hd_rev)
  show ?thesis by (simp add: strip_def 1 2)
qed

lemma py_int_str_int: "py_int (str_int i) = Some i"
proof (cases "i < 0")
  case True
  let ?s = "CHR ''-'' # str_nat (nat (- i))"
  have "last ?s \<in> set (str_nat (nat (- i)))"
    using str_nat_nonempty by simp
  then have "\<not> is_space (last ?s)"
    using str_nat_digits is_digit_not_space by blast
  moreover have "\<not> is_space (hd ?s)" by (simp add: is_space_def)
  ultimately have "strip ?s = ?s" by (intro strip_id) simp_all
  with True show ?thesis
    by (simp add: py_int_def str_int_def parse_digits_str_nat)
next
  case False
  let ?s = "str_nat (nat i)"
  obtain c cs where s: "?s = c # cs"
    using str_nat_nonempty [of "nat i"] by (cases ?s) auto
  have dig: "\<forall>c \<in> set ?s. is_digit c" by (rule str_nat_digits)
  have "is_digit c" using dig s by simp
  moreover have "is_digit (last ?s)" using dig str_nat_nonempty last_in_set by blast
  ultimately have "strip ?s = ?s"
    using s by (intro strip_id) (auto dest: is_digit_not_space)
  moreover have "c \<noteq> CHR ''-'' \<and> c \<noteq> CHR ''+''"
    using \<open>is_digit c\<close> by (rule is_digit_not_sign)
  moreover have "parse_digits 0 False (c # cs) = Some (nat i)"
    using parse_digits_str_nat [of "nat i"] s by simp
  ultimately show ?thesis
    using False s by (simp add: py_int_def str_int_def)
qed

lemma str_int_inj: "str_int i = str_int j \<Longrightarrow> i = j"
  by (metis py_int_str_int option.inject)

lemma lower_bool: "(py_lower (py_str (PBool b)) = ''true'') = b"
proof (cases b)
  case True
  have "py_lower ''True'' = ''true''" by code_simp
  with True show ?thesis by simp
next
  case False
  have "py_lower ''False'' \<noteq> ''true''" by code_simp
  with False show ?thesis by simp
qed

section \<open>Saving a record and reading it back\<close>

text \<open>
  On a users sheet that starts with the header row, saving a record of user \<open>uid\<close> and
  looking \<open>uid\<close> up afterwards gives \<open>reload\<close> of the saved record, and the lookup
  of every other user is as before. For a \<open>typed_record\<close> the reloaded record agrees with
  the saved one on every entry the saved one has.
\<close>

lemma find_row_SomeD:
  "find_row u rs = Some k \<Longrightarrow> k < length rs \<and> row_matches u (rs ! k)"
  by (induction rs arbitrary: k) (auto split: if_splits)

lemma find_row_update_same:
  "find_row u rs = Some k \<Longrightarrow> row_matches u r \<Longrightarrow> find_row u (rs[k := r]) = Some k"
  by (induction rs arbitrary: k) (auto split: if_splits)

lemma find_row_update_other:
  "k < length rs \<Longrightarrow> \<not> row_matches u (rs ! k) \<Longrightarrow> \<not> row_matches u r \<Longrightarrow>
   find_row u (rs[k := r]) = find_row u rs"
  by (induction rs arbitrary: k) (auto split: nat.splits)

lemma find_row_append:
  "find_row u (rs @ [r]) =
     (case find_row u rs of
        Some k \<Rightarrow> Some k
      | None \<Rightarrow> if row_matches u r then Some (length rs) else None)"
  by (induction rs) (auto split: option.splits)

lemma row_matches_other: "row_matches u r \<Longrightarrow> u' \<noteq> u \<Longrightarrow> \<not> row_matches u' r"
  by (cases r) auto

lemma dict_zip_PStr: "dict_zip hs r k = Some v \<Longrightarrow> k \<in> set hs \<and> (\<exists>s. v = PStr s)"
proof -
  assume "dict_zip hs r k = Some v"
  then have "(k, v) \<in> set (zip hs (map PStr r))"
    unfolding dict_zip_def by (auto dest: map_of_SomeD)
  then have "k \<in> set hs" and "v \<in> set (map PStr r)"
    by (auto dest: set_zip_leftD set_zip_rightD)
  then show ?thesis by auto
qed

lemma dict_zip_user_id: "dict_zip HEADERS (c # cs) ''user_id'' = Some (PStr c)"
proof -
  let ?zs = "zip (tl HEADERS) (map PStr cs)"
  have "map_of (rev ?zs) ''user_id'' = None"
  proof (rule ccontr)
    assume "map_of (rev ?zs) ''user_id'' \<noteq> None"
    then obtain v where "(''user_id'', v) \<in> set ?zs"
      by (auto dest: map_of_SomeD)
    then have "''user_id'' \<in> set (tl HEADERS)" by (rule set_zip_leftD)
    then show False by (simp add: HEADERS_def)
  qed
  then show ?thesis
    by (simp add: dict_zip_def HEADERS_def map_add_def)
qed

lemma convert_types_typed:
  assumes "convert_types d = Some u"
      and "\<And>k v. d k = Some v \<Longrightarrow> k \<in> set HEADERS \<and> (\<exists>s. v = PStr s)"
  shows "typed_record u"
proof -
  from assms(1) obtain n where u: "u = d(''current_lesson'' \<mapsto> PInt n,
      ''paused'' \<mapsto> PBool (py_lower (py_str (dict_get d ''paused'' (PStr ''False''))) = ''true''),
      ''completed'' \<mapsto>
         PBool (py_lower (py_str (dict_get d ''completed'' (PStr ''False''))) = ''true''))"
    unfolding convert_types_def by (auto split: option.splits)
  have "u k = Some v \<Longrightarrow> k \<in> set HEADERS \<and>
        (k \<noteq> ''current_lesson'' \<and> k \<noteq> ''paused'' \<and> k \<noteq> ''completed'' \<longrightarrow> (\<exists>s. v = PStr s))"
    for k v
    using assms(2) [of k v] by (auto simp: u HEADERS_def split: if_splits)
  then show ?thesis
    unfolding typed_record_def by (simp add: u)
qed

lemma convert_types_user_id:
  "convert_types d = Some u \<Longrightarrow> u ''user_id'' = d ''user_id''"
  unfolding convert_types_def by (auto split: option.splits)

lemma get_user_typed:
  assumes "hd av = HEADERS" and "get_user_from_sheet (Some av) uid = Some u"
  shows "typed_record u \<and> u ''user_id'' = Some (PStr uid)"
proof -
  from assms(2) obtain k where
    k: "find_row uid (tl av) = Some k" and
    u: "convert_types (dict_zip (hd av) (tl av ! k)) = Some u"
    unfolding get_user_from_sheet_def by (auto split: if_splits option.splits)
  from k have "row_matches uid (tl av ! k)" by (simp add: find_row_SomeD)
  then obtain cs where r: "tl av ! k = uid # cs" by (cases "tl av ! k") auto
  have "typed_record u"
    using u by (rule convert_types_typed) (auto dest: dict_zip_PStr simp: assms(1))
  moreover have "u ''user_id'' = Some (PStr uid)"
    using convert_types_user_id [OF u] by (simp add: assms(1) r dict_zip_user_id)
  ultimately show ?thesis by simp
qed

lemma reload_eq:
  "reload t d =
     (case py_int (py_str (dict_get d ''current_lesson'' (PInt 0))) of
        None \<Rightarrow> None
      | Some n \<Rightarrow>
          Some [''user_id'' \<mapsto> PStr (py_str (dict_get d ''user_id'' (PStr []))),
                ''username'' \<mapsto> PStr (py_str (dict_get d ''username'' (PStr []))),
                ''current_lesson'' \<mapsto> PInt n,
                ''paused'' \<mapsto>
                   PBool (py_lower (py_str (dict_get d ''paused'' (PBool False))) = ''true''),
                ''last_lesson_sent'' \<mapsto> PStr (py_str (dict_get d ''last_lesson_sent'' (PStr []))),
                ''completed'' \<mapsto>
                   PBool (py_lower (py_str (dict_get d ''completed'' (PBool False))) = ''true''),
                ''created_at'' \<mapsto> PStr (py_str (dict_get d ''created_at'' (PStr t)))])"
  unfolding reload_def convert_types_def dict_zip_def HEADERS_def row_data_def
  by (auto simp: dict_get_def fun_eq_iff split: option.splits)

lemma reload_extends:
  assumes "typed_record d"
  shows "\<exists>u. reload t d = Some u \<and> d \<subseteq>\<^sub>m u \<and> typed_record u"
proof -
  from assms obtain n b c where
    f: "d ''current_lesson'' = Some (PInt n)" "d ''paused'' = Some (PBool b)"
       "d ''completed'' = Some (PBool c)"
    unfolding typed_record_def by blast
  let ?u = "[''user_id'' \<mapsto> PStr (py_str (dict_get d ''user_id'' (PStr []))),
             ''username'' \<mapsto> PStr (py_str (dict_get d ''username'' (PStr []))),
             ''current_lesson'' \<mapsto> PInt n,
             ''paused'' \<mapsto> PBool b,
             ''last_lesson_sent'' \<mapsto> PStr (py_str (dict_get d ''last_lesson_sent'' (PStr []))),
             ''completed'' \<mapsto> PBool c,
             ''created_at'' \<mapsto> PStr (py_str (dict_get d ''created_at'' (PStr t)))]"
  have fb: "(py_lower (if x then ''True'' else ''False'') = ''true'') = x" for x
    using lower_bool [of x] by simp
  have r: "reload t d = Some ?u"
    by (simp add: reload_eq dict_get_def f py_int_str_int fb)
  have "d k = Some v \<Longrightarrow> ?u k = Some v" for k v
  proof -
    assume kv: "d k = Some v"
    with assms have hk: "k \<in> set HEADERS" and
      sv: "k \<noteq> ''current_lesson'' \<and> k \<noteq> ''paused'' \<and> k \<noteq> ''completed'' \<longrightarrow> (\<exists>s. v = PStr s)"
      unfolding typed_record_def by blast+
    from hk have "k = ''user_id'' \<or> k = ''username'' \<or> k = ''current_lesson'' \<or>
      k = ''paused'' \<or> k = ''last_lesson_sent'' \<or> k = ''completed'' \<or> k = ''created_at''"
      by (simp add: HEADERS_def)
    then show "?u k = Some v"
      using kv sv f by (elim disjE) (auto simp: dict_get_def)
  qed
  then have "d \<subseteq>\<^sub>m ?u"
    unfolding map_le_def by (metis domD)
  moreover have "typed_record ?u"
    unfolding typed_record_def by (simp add: HEADERS_def)
  ultimately show ?thesis using r by blast
qed

lemma get_user_rows:
  "get_user_from_sheet (Some (h # rows)) uid =
     (case find_row uid rows of
        None \<Rightarrow> None
      | Some k \<Rightarrow> convert_types (dict_zip h (rows ! k)))"
  by (cases rows) (auto simp: get_user_from_sheet_def split: option.splits)

lemma save_rows:
  "h \<noteq> [] \<Longrightarrow>
   save_user_to_sheet t (Some (h # rows)) d =
     (case find_row (py_str (dict_get d ''user_id'' PNone)) rows of
        Some k \<Rightarrow> Some (h # rows[k := row_data t d @ drop 7 (rows ! k)])
      | None \<Rightarrow> Some (h # rows @ [row_data t d]))"
  by (simp add: save_user_to_sheet_def Let_def split: option.splits)

lemma save_empty: "save_user_to_sheet t (Some []) d = Some [HEADERS, row_data t d]"
  by (simp add: save_user_to_sheet_def)

lemma row_data_matches:
  "d ''user_id'' = Some (PStr uid) \<Longrightarrow> row_matches uid (row_data t d @ rest)"
  by (simp add: row_data_def dict_get_def)

lemma dict_zip_row_data:
  "dict_zip HEADERS (row_data t d @ rest) = dict_zip HEADERS (row_data t d)"
  by (simp add: dict_zip_def HEADERS_def row_data_def)

lemma HEADERS_nonempty: "HEADERS \<noteq> []"
  by (simp add: HEADERS_def)

lemma get_after_save_rows:
  assumes uid: "d ''user_id'' = Some (PStr uid)"
  shows "\<exists>rows'. save_user_to_sheet t (Some (HEADERS # rows)) d = Some (HEADERS # rows') \<and>
           get_user_from_sheet (Some (HEADERS # rows')) uid = reload t d \<and>
           (\<forall>uid'. uid' \<noteq> uid \<longrightarrow>
              get_user_from_sheet (Some (HEADERS # rows')) uid' =
              get_user_from_sheet (Some (HEADERS # rows)) uid')"
proof -
  let ?rd = "row_data t d"
  have key: "py_str (dict_get d ''user_id'' PNone) = uid"
    by (simp add: dict_get_def uid)
  show ?thesis
  proof (cases "find_row uid rows")
    case None
    let ?rows' = "rows @ [?rd]"
    have s: "save_user_to_sheet t (Some (HEADERS # rows)) d = Some (HEADERS # ?rows')"
      by (simp add: save_rows HEADERS_nonempty key None)
    have m: "row_matches uid ?rd"
      using uid by (simp add: row_data_def dict_get_def)
    have "find_row uid ?rows' = Some (length rows)"
      by (simp add: find_row_append None m)
    then have g: "get_user_from_sheet (Some (HEADERS # ?rows')) uid = reload t d"
      by (simp add: get_user_rows reload_def)
    have o: "get_user_from_sheet (Some (HEADERS # ?rows')) uid' =
             get_user_from_sheet (Some (HEADERS # rows)) uid'" if "uid' \<noteq> uid" for uid'
    proof -
      have nm: "\<not> row_matches uid' ?rd" using m that by (rule row_matches_other)
      show ?thesis
      proof (cases "find_row uid' rows")
        case None
        then show ?thesis by (simp add: get_user_rows find_row_append nm)
      next
        case (Some k')
        then have "k' < length rows" by (simp add: find_row_SomeD)
        then show ?thesis by (simp add: get_user_rows find_row_append Some nth_append)
      qed
    qed
    from s g o show ?thesis by blast
  next
    case (Some k)
    let ?r = "?rd @ drop 7 (rows ! k)"
    let ?rows' = "rows[k := ?r]"
    from Some have k: "k < length rows" and mk: "row_matches uid (rows ! k)"
      by (simp_all add: find_row_SomeD)
    have s: "save_user_to_sheet t (Some (HEADERS # rows)) d = Some (HEADERS # ?rows')"
      by (simp add: save_rows HEADERS_nonempty key Some)
    have m: "row_matches uid ?r" using uid by (rule row_data_matches)
    have "find_row uid ?rows' = Some k"
      using Some m by (rule find_row_update_same)
    then have g: "get_user_from_sheet (Some (HEADERS # ?rows')) uid = reload t d"
      using k by (simp add: get_user_rows reload_def dict_zip_row_data)
    have o: "get_user_from_sheet (Some (HEADERS # ?rows')) uid' =
             get_user_from_sheet (Some (HEADERS # rows)) uid'" if "uid' \<noteq> uid" for uid'
    proof -
      have n1: "\<not> row_matches uid' (rows ! k)" using mk that by (rule row_matches_other)
      have n2: "\<not> row_matches uid' ?r" using m that by (rule row_matches_other)
      have f: "find_row uid' ?rows' = find_row uid' rows"
        using k n1 n2 by (rule find_row_update_other)
      show ?thesis
      proof (cases "find_row uid' rows")
        case None
        then show ?thesis by (simp add: get_user_rows f)
      next
        case (Some k')
        then have "row_matches uid' (rows ! k')" by (simp add: find_row_SomeD)
        with n1 have "k' \<noteq> k" by auto
        then show ?thesis by (simp add: get_user_rows f Some)
      qed
    qed
    from s g o show ?thesis by blast
  qed
qed

section \<open>What a delivery does to the store and the transport\<close>

text \<open>
  The effect of \<open>send_lesson\<close> for a user with a record that is not paused and an index
  inside the catalog, on a users sheet with the header row: the stored record gets the
  new \<open>current_lesson\<close>; if the send succeeds the lesson text goes out and a final lesson
  sets \<open>completed\<close>; if the send fails nothing goes out and nothing else is written.
  Other users' records, the responses sheet and the job queue stay as they are.
\<close>

lemma typed_record_update_current_lesson:
  assumes "typed_record d"
  shows "typed_record (d(''current_lesson'' \<mapsto> PInt i))"
proof -
  have h: "''current_lesson'' \<in> set HEADERS" by (simp add: HEADERS_def)
  show ?thesis
    using assms h unfolding typed_record_def by (simp (no_asm_use)) blast
qed

lemma typed_record_update_paused:
  assumes "typed_record d"
  shows "typed_record (d(''paused'' \<mapsto> PBool b))"
proof -
  have h: "''paused'' \<in> set HEADERS" by (simp add: HEADERS_def)
  show ?thesis
    using assms h unfolding typed_record_def by (simp (no_asm_use)) blast
qed

lemma typed_record_update_completed:
  assumes "typed_record d"
  shows "typed_record (d(''completed'' \<mapsto> PBool b))"
proof -
  have h: "''completed'' \<in> set HEADERS" by (simp add: HEADERS_def)
  show ?thesis
    using assms h unfolding typed_record_def by (simp (no_asm_use)) blast
qed

lemma typed_record_update_last_lesson_sent:
  assumes "typed_record d"
  shows "typed_record (d(''last_lesson_sent'' \<mapsto> PStr s))"
proof -
  have h: "''last_lesson_sent'' \<in> set HEADERS" by (simp add: HEADERS_def)
  show ?thesis
    using assms h unfolding typed_record_def by (simp (no_asm_use)) blast
qed

lemma persist:
  assumes "typed_record d" and "d ''user_id'' = Some (PStr uid)"
  shows "\<exists>rows' u. save_user_to_sheet t (Some (HEADERS # rows)) d = Some (HEADERS # rows') \<and>
           get_user_from_sheet (Some (HEADERS # rows')) uid = Some u \<and>
           d \<subseteq>\<^sub>m u \<and> typed_record u \<and>
           (\<forall>uid'. uid' \<noteq> uid \<longrightarrow>
              get_user_from_sheet (Some (HEADERS # rows')) uid' =
              get_user_from_sheet (Some (HEADERS # rows)) uid')"
proof -
  from assms(2) get_after_save_rows [where d = d and uid = uid and t = t and rows = rows]
  obtain rows' where
    r: "save_user_to_sheet t (Some (HEADERS # rows)) d = Some (HEADERS # rows')"
       "get_user_from_sheet (Some (HEADERS # rows')) uid = reload t d"
       "\<forall>uid'. uid' \<noteq> uid \<longrightarrow>
              get_user_from_sheet (Some (HEADERS # rows')) uid' =
              get_user_from_sheet (Some (HEADERS # rows)) uid'"
    by blast
  from reload_extends [OF assms(1), of t] obtain u where
    u: "reload t d = Some u" "d \<subseteq>\<^sub>m u" "typed_record u" by blast
  from r u show ?thesis by auto
qed

lemma py_index_valid: "0 \<le> i \<Longrightarrow> i < int (length xs) \<Longrightarrow> py_index xs i = Some (xs ! nat i)"
  by (simp add: py_index_def Let_def)

lemma map_le_lookup: "d \<subseteq>\<^sub>m u \<Longrightarrow> d k = Some v \<Longrightarrow> u k = Some v"
  by (metis domI map_le_def)

lemma send_lesson_effect:
  assumes sh: "users_sheet w = Some (HEADERS # rows)"
      and st: "stored w uid = Some u"
      and np: "u ''paused'' = Some (PBool False)"
      and px: "py_index L i = Some l"
  shows "\<exists>w' u' rows'. send_lesson L e via uid i w = Inr w' \<and>
           users_sheet w' = Some (HEADERS # rows') \<and>
           stored w' uid = Some u' \<and> typed_record u' \<and>
           responses_sheet w' = responses_sheet w \<and> job_queue w' = job_queue w \<and>
           (\<forall>uid'. uid' \<noteq> uid \<longrightarrow> stored w' uid' = stored w uid') \<and>
           (case send_target e via uid of
              None \<Rightarrow> outbox w' = outbox w \<and> u(''current_lesson'' \<mapsto> PInt i) \<subseteq>\<^sub>m u'
            | Some tg \<Rightarrow>
                outbox w' = outbox w @ [(tg, LessonMessage (lesson_message l))] \<and>
                (if is_final l
                 then u(''current_lesson'' \<mapsto> PInt i, ''completed'' \<mapsto> PBool True)
                 else u(''current_lesson'' \<mapsto> PInt i)) \<subseteq>\<^sub>m u')"
proof -
  let ?d1 = "u(''current_lesson'' \<mapsto> PInt i)"
  let ?d2 = "?d1(''completed'' \<mapsto> PBool True)"
  from st sh have g: "get_user_from_sheet (Some (HEADERS # rows)) uid = Some u"
    by (simp add: stored_def)
  then have tu: "typed_record u" and iu: "u ''user_id'' = Some (PStr uid)"
    using get_user_typed [of "HEADERS # rows" uid u] by simp_all
  have t1: "typed_record ?d1" using tu by (rule typed_record_update_current_lesson)
  have i1: "?d1 ''user_id'' = Some (PStr uid)" using iu by simp
  from persist [OF t1 i1, of "now e" rows] obtain rows1 u1 where
    s1: "save_user_to_sheet (now e) (Some (HEADERS # rows)) ?d1 = Some (HEADERS # rows1)" and
    g1: "get_user_from_sheet (Some (HEADERS # rows1)) uid = Some u1" and
    m1: "?d1 \<subseteq>\<^sub>m u1" and ty1: "typed_record u1" and
    o1: "\<forall>uid'. uid' \<noteq> uid \<longrightarrow>
           get_user_from_sheet (Some (HEADERS # rows1)) uid' =
           get_user_from_sheet (Some (HEADERS # rows)) uid'"
    by blast
  have t2: "typed_record ?d2" using t1 by (rule typed_record_update_completed)
  have i2: "?d2 ''user_id'' = Some (PStr uid)" using iu by simp
  from persist [OF t2 i2, of "now e" rows1] obtain rows2 u2 where
    s2: "save_user_to_sheet (now e) (Some (HEADERS # rows1)) ?d2 = Some (HEADERS # rows2)" and
    g2: "get_user_from_sheet (Some (HEADERS # rows2)) uid = Some u2" and
    m2: "?d2 \<subseteq>\<^sub>m u2" and ty2: "typed_record u2" and
    o2: "\<forall>uid'. uid' \<noteq> uid \<longrightarrow>
           get_user_from_sheet (Some (HEADERS # rows2)) uid' =
           get_user_from_sheet (Some (HEADERS # rows1)) uid'"
    by blast
  from px have L: "L \<noteq> []" "\<not> int (length L) \<le> i"
    by (auto simp: py_index_def Let_def split: if_splits)
  have pa: "\<not> py_truthy (dict_get u ''paused'' (PBool False))"
    by (simp add: dict_get_def np)
  show ?thesis
  proof (cases "send_target e via uid")
    case None
    have "send_lesson L e via uid i w = Inr (w\<lparr>users_sheet := Some (HEADERS # rows1)\<rparr>)"
      by (simp add: send_lesson_def L px sh g pa s1 None)
    then show ?thesis
      using g1 m1 ty1 o1 sh by (simp add: stored_def None)
  next
    case (Some tg)
    show ?thesis
    proof (cases "is_final l")
      case False
      have "send_lesson L e via uid i w =
              Inr (w\<lparr>users_sheet := Some (HEADERS # rows1),
                     outbox := outbox w @ [(tg, LessonMessage (lesson_message l))]\<rparr>)"
        by (simp add: send_lesson_def L px sh g pa s1 Some False)
      then show ?thesis
        using g1 m1 ty1 o1 sh by (simp add: stored_def Some False)
    next
      case True
      have "send_lesson L e via uid i w =
              Inr (w\<lparr>users_sheet := Some (HEADERS # rows2),
                     outbox := outbox w @ [(tg, LessonMessage (lesson_message l))]\<rparr>)"
        by (simp add: send_lesson_def L px sh g pa s1 s2 Some True)
      then show ?thesis
        using g2 m2 ty2 o1 o2 sh by (simp add: stored_def Some True)
    qed
  qed
qed

section \<open>Values on the example data\<close>

lemma py_int_demo:
  "py_int ''0'' = Some 0" "py_int ''1'' = Some 1" "py_int ''2'' = Some 2" "py_int ''3'' = Some 3"
  "py_int ''7'' = Some 7"
  by code_simp+

lemma py_lower_demo: "py_lower ''False'' = ''false''" "py_lower ''True'' = ''true''"
  by code_simp+

lemma str_int_demo:
  "str_int 0 = ''0''" "str_int 1 = ''1''" "str_int 2 = ''2''" "str_int 3 = ''3''"
  "str_int 7 = ''7''"
  by code_simp+

lemmas demo_simps =
  demo_lessons_def demo_row_def demo_world_def demo_env_def demo_text_def demo_voice_def
  demo_document_def get_user_rows convert_types_def dict_zip_def HEADERS_def dict_get_def
  py_index_def send_target_def save_user_to_sheet_def row_data_def save_response_to_sheet_def
  py_int_demo py_lower_demo str_int_demo

section \<open>Delivery with an empty catalog\<close>

text \<open>
  C9. With an empty lesson catalog \<open>send_lesson\<close> returns at its first test, for every
  index, user and way of sending: it ends normally (no exception) in the world it started
  in, so no worksheet is written, no message is sent and no job is queued. The same holds
  when the scheduler's job runs it.
\<close>

theorem send_lesson_empty_catalog:
  "send_lesson [] e via user_id lesson_index w = Inr w \<and>
   send_lesson_job [] e j w = Inr w"
  by (simp add: send_lesson_def send_lesson_job_def)

section \<open>Delivery of a lesson: index, completion and a failed send\<close>

text \<open>
  C4, as amended. For a user whose record exists and is not paused, on a users sheet with
  the header row, and an index \<open>i\<close> with \<open>0 \<le> i < len(LESSONS)\<close>, \<open>send_lesson\<close> ends
  normally and the stored record has \<open>current_lesson = i\<close>, whether the send succeeds or
  not; every entry other than \<open>current_lesson\<close> and \<open>completed\<close> keeps its value. When the
  send succeeds, \<open>completed\<close> is set to true if lesson \<open>i\<close> is final and keeps its value
  if it is not, and the lesson text is sent. When the send fails, \<open>completed\<close> keeps its
  value and nothing is sent.
\<close>

theorem send_lesson_index_and_completed:
  assumes "users_sheet w = Some (HEADERS # rows)"
      and "stored w user_id = Some u"
      and "u ''paused'' = Some (PBool False)"
      and "0 \<le> i" and "i < int (length LESSONS)"
  shows "\<exists>w' u'. send_lesson LESSONS e via user_id i w = Inr w' \<and>
           stored w' user_id = Some u' \<and>
           u' ''current_lesson'' = Some (PInt i) \<and>
           (\<forall>k v. u k = Some v \<and> k \<noteq> ''current_lesson'' \<and> k \<noteq> ''completed'' \<longrightarrow> u' k = Some v) \<and>
           (\<forall>tg. send_target e via user_id = Some tg \<longrightarrow>
              (is_final (LESSONS ! nat i) \<longrightarrow> u' ''completed'' = Some (PBool True)) \<and>
              (\<not> is_final (LESSONS ! nat i) \<longrightarrow> u' ''completed'' = u ''completed'') \<and>
              outbox w' = outbox w @ [(tg, LessonMessage (lesson_message (LESSONS ! nat i)))]) \<and>
           (send_target e via user_id = None \<longrightarrow>
              u' ''completed'' = u ''completed'' \<and> outbox w' = outbox w)"
proof -
  have px: "py_index LESSONS i = Some (LESSONS ! nat i)"
    using assms(4,5) by (rule py_index_valid)
  obtain c where tu: "u ''completed'' = Some (PBool c)"
    using get_user_typed [of "HEADERS # rows" user_id u] assms(1,2)
    unfolding stored_def typed_record_def by auto
  from send_lesson_effect [OF assms(1-3) px, of e via] obtain w' u' where
    r: "send_lesson LESSONS e via user_id i w = Inr w'" "stored w' user_id = Some u'" and
    m: "(case send_target e via user_id of
           None \<Rightarrow> outbox w' = outbox w \<and> u(''current_lesson'' \<mapsto> PInt i) \<subseteq>\<^sub>m u'
         | Some tg \<Rightarrow>
             outbox w' = outbox w @ [(tg, LessonMessage (lesson_message (LESSONS ! nat i)))] \<and>
             (if is_final (LESSONS ! nat i)
              then u(''current_lesson'' \<mapsto> PInt i, ''completed'' \<mapsto> PBool True)
              else u(''current_lesson'' \<mapsto> PInt i)) \<subseteq>\<^sub>m u')"
    by blast
  show ?thesis
  proof (cases "send_target e via user_id")
    case None
    with m have o: "outbox w' = outbox w" and le: "u(''current_lesson'' \<mapsto> PInt i) \<subseteq>\<^sub>m u'"
      by simp_all
    have c1: "u' ''current_lesson'' = Some (PInt i)"
      using le by (auto intro: map_le_lookup)
    have fr: "u k = Some v \<Longrightarrow> k \<noteq> ''current_lesson'' \<Longrightarrow> u' k = Some v" for k v
      using le by (auto intro: map_le_lookup)
    have "u' ''completed'' = u ''completed''" using fr tu by simp
    with r o c1 fr None show ?thesis by auto
  next
    case (Some tg)
    with m have
      o: "outbox w' = outbox w @ [(tg, LessonMessage (lesson_message (LESSONS ! nat i)))]" and
      le: "(if is_final (LESSONS ! nat i)
            then u(''current_lesson'' \<mapsto> PInt i, ''completed'' \<mapsto> PBool True)
            else u(''current_lesson'' \<mapsto> PInt i)) \<subseteq>\<^sub>m u'"
      by simp_all
    have c1: "u' ''current_lesson'' = Some (PInt i)"
      using le by (auto intro: map_le_lookup split: if_splits)
    have f1: "is_final (LESSONS ! nat i) \<Longrightarrow> u' ''completed'' = Some (PBool True)"
      using le by (auto intro: map_le_lookup)
    have f2: "\<not> is_final (LESSONS ! nat i) \<Longrightarrow> u' ''completed'' = u ''completed''"
      using le tu by (auto intro: map_le_lookup)
    have fr: "u k = Some v \<Longrightarrow> k \<noteq> ''current_lesson'' \<Longrightarrow> k \<noteq> ''completed'' \<Longrightarrow> u' k = Some v"
      for k v
      using le by (auto intro: map_le_lookup split: if_splits)
    from r o c1 f1 f2 fr Some show ?thesis by auto
  qed
qed

text \<open>
  The theorem at work: user 7 stands at lesson 1 and the scheduler's job delivers the
  final lesson 2, once with a send that succeeds and once with a send that fails.
\<close>

theorem send_lesson_index_and_completed_witness:
  "(\<exists>w' u'. send_lesson demo_lessons (demo_env True) None ''7'' 2
               (demo_world ''1'' ''False'' ''False'') = Inr w' \<and>
            stored w' ''7'' = Some u' \<and>
            u' ''current_lesson'' = Some (PInt 2) \<and>
            u' ''completed'' = Some (PBool True) \<and>
            u' ''paused'' = Some (PBool False) \<and>
            outbox w' = [(ChatId 7, LessonMessage (lesson_message (demo_lessons ! 2)))]) \<and>
   (\<exists>w' u'. send_lesson demo_lessons (demo_env False) None ''7'' 2
               (demo_world ''1'' ''False'' ''False'') = Inr w' \<and>
            stored w' ''7'' = Some u' \<and>
            u' ''current_lesson'' = Some (PInt 2) \<and>
            u' ''completed'' = Some (PBool False) \<and>
            outbox w' = [])"
proof -
  let ?w = "demo_world ''1'' ''False'' ''False''"
  let ?u = "the (stored ?w ''7'')"
  have h1: "users_sheet ?w = Some (HEADERS # [demo_row ''1'' ''False'' ''False''])"
    by (simp add: demo_world_def)
  have h2: "stored ?w ''7'' = Some ?u"
    by (simp add: stored_def demo_simps)
  have h3: "?u ''paused'' = Some (PBool False)"
    by (simp add: stored_def demo_simps)
  have h4: "(0::int) \<le> 2" "2 < int (length demo_lessons)"
    by (simp_all add: demo_lessons_def)
  have ok: "send_target (demo_env True) None ''7'' = Some (ChatId 7)"
    and ko: "send_target (demo_env False) None ''7'' = None"
    by (simp_all add: demo_simps)
  have h6: "is_final (demo_lessons ! nat 2)" "?u ''completed'' = Some (PBool False)"
    "outbox ?w = []"
    by (simp_all add: stored_def demo_simps numeral_2_eq_2)
  from send_lesson_index_and_completed [OF h1 h2 h3 h4, of "demo_env True" None] ok h3 h6
  have 1: "\<exists>w' u'. send_lesson demo_lessons (demo_env True) None ''7'' 2 ?w = Inr w' \<and>
            stored w' ''7'' = Some u' \<and>
            u' ''current_lesson'' = Some (PInt 2) \<and>
            u' ''completed'' = Some (PBool True) \<and>
            u' ''paused'' = Some (PBool False) \<and>
            outbox w' = [(ChatId 7, LessonMessage (lesson_message (demo_lessons ! 2)))]"
    by auto
  from send_lesson_index_and_completed [OF h1 h2 h3 h4, of "demo_env False" None] ko h6
  have 2: "\<exists>w' u'. send_lesson demo_lessons (demo_env False) None ''7'' 2 ?w = Inr w' \<and>
            stored w' ''7'' = Some u' \<and>
            u' ''current_lesson'' = Some (PInt 2) \<and>
            u' ''completed'' = Some (PBool False) \<and>
            outbox w' = []"
    by auto
  from 1 2 show ?thesis by blast
qed

text \<open>
  C4 as the claim states it fails when the send fails: lesson 2 is final, the job's send
  fails, and the record is stored with \<open>current_lesson = 2\<close> and \<open>completed\<close> still
  false.
\<close>

theorem send_lesson_final_failed_send_counterexample:
  "is_final (demo_lessons ! 2) \<and>
   send_lesson demo_lessons (demo_env False) None ''7'' 2 (demo_world ''1'' ''False'' ''False'')
     = Inr (demo_world ''2'' ''False'' ''False'') \<and>
   the (stored (demo_world ''2'' ''False'' ''False'') ''7'') ''completed'' = Some (PBool False)"
  by (simp add: send_lesson_def stored_def demo_simps)

text \<open>
  C3, as amended. Under the same conditions, when the send fails, \<open>send_lesson\<close> ends
  normally without sending anything and without touching \<open>completed\<close>; the stored record
  has \<open>current_lesson = i\<close>, which was saved before the send, and every other entry keeps
  its value.
\<close>

theorem send_lesson_failed_send:
  assumes "users_sheet w = Some (HEADERS # rows)"
      and "stored w user_id = Some u"
      and "u ''paused'' = Some (PBool False)"
      and "0 \<le> i" and "i < int (length LESSONS)"
      and "send_target e via user_id = None"
  shows "\<exists>w' u'. send_lesson LESSONS e via user_id i w = Inr w' \<and>
           stored w' user_id = Some u' \<and>
           u' ''current_lesson'' = Some (PInt i) \<and>
           u' ''completed'' = u ''completed'' \<and>
           (\<forall>k v. u k = Some v \<and> k \<noteq> ''current_lesson'' \<longrightarrow> u' k = Some v) \<and>
           outbox w' = outbox w \<and> job_queue w' = job_queue w"
proof -
  have px: "py_index LESSONS i = Some (LESSONS ! nat i)"
    using assms(4,5) by (rule py_index_valid)
  from send_lesson_effect [OF assms(1-3) px, of e via] assms(6) obtain w' u' where
    r: "send_lesson LESSONS e via user_id i w = Inr w'" "stored w' user_id = Some u'"
       "outbox w' = outbox w" "job_queue w' = job_queue w" and
    m: "u(''current_lesson'' \<mapsto> PInt i) \<subseteq>\<^sub>m u'"
    by auto
  have c: "u' ''current_lesson'' = Some (PInt i)"
    using m by (auto intro: map_le_lookup)
  have fr: "u k = Some v \<Longrightarrow> k \<noteq> ''current_lesson'' \<Longrightarrow> u' k = Some v" for k v
    using m by (auto intro: map_le_lookup)
  obtain c' where "u ''completed'' = Some (PBool c')"
    using get_user_typed [of "HEADERS # rows" user_id u] assms(1,2)
    unfolding stored_def typed_record_def by auto
  then have "u' ''completed'' = u ''completed''" using fr by simp
  with r c fr show ?thesis by blast
qed

text \<open>
  The theorem at work: the reply to an update fails for user 7, who stands at lesson 1,
  when the final lesson 2 is to be sent.
\<close>

theorem send_lesson_failed_send_witness:
  "\<exists>w' u'. send_lesson demo_lessons (demo_env False) (Some demo_text) ''7'' 2
              (demo_world ''1'' ''False'' ''False'') = Inr w' \<and>
           stored w' ''7'' = Some u' \<and>
           u' ''current_lesson'' = Some (PInt 2) \<and>
           u' ''completed'' = Some (PBool False) \<and>
           outbox w' = [] \<and> job_queue w' = []"
proof -
  let ?w = "demo_world ''1'' ''False'' ''False''"
  let ?u = "the (stored ?w ''7'')"
  have h1: "users_sheet ?w = Some (HEADERS # [demo_row ''1'' ''False'' ''False''])"
    by (simp add: demo_world_def)
  have h2: "stored ?w ''7'' = Some ?u"
    by (simp add: stored_def demo_simps)
  have h3: "?u ''paused'' = Some (PBool False)"
    by (simp add: stored_def demo_simps)
  have h4: "(0::int) \<le> 2" "2 < int (length demo_lessons)"
    by (simp_all add: demo_lessons_def)
  have h5: "send_target (demo_env False) (Some demo_text) ''7'' = None"
    by (simp add: demo_simps)
  have h6: "?u ''completed'' = Some (PBool False)"
    by (simp add: stored_def demo_simps)
  from send_lesson_failed_send [OF h1 h2 h3 h4 h5] h6 show ?thesis
    by (auto simp: demo_world_def)
qed

text \<open>
  C3 as the claim states it fails: user 7 stands at lesson 0, the send of lesson 1 fails,
  nothing is sent, and the stored \<open>current_lesson\<close> is 1, the index of the lesson that
  was not delivered.
\<close>

theorem send_lesson_index_kept_after_failed_send_counterexample:
  "send_target (demo_env False) None ''7'' = None \<and>
   the (stored (demo_world ''0'' ''False'' ''False'') ''7'') ''current_lesson'' = Some (PInt 0) \<and>
   send_lesson demo_lessons (demo_env False) None ''7'' 1 (demo_world ''0'' ''False'' ''False'')
     = Inr (demo_world ''1'' ''False'' ''False'') \<and>
   the (stored (demo_world ''1'' ''False'' ''False'') ''7'') ''current_lesson'' = Some (PInt 1) \<and>
   outbox (demo_world ''1'' ''False'' ''False'') = []"
  by (simp add: send_lesson_def stored_def demo_simps)

section \<open>Replies and the response log\<close>

lemma current_of_valid:
  assumes "stored w uid = Some u" and "u ''current_lesson'' = Some (PInt i)"
      and "0 \<le> i" and "i < int (length L)"
  shows "current_of L w uid = Inr (Some (u, i, L ! nat i))"
  using assms by (simp add: current_of_def stored_def dict_get_def py_index_valid)

lemma current_of_ignored:
  assumes "stored w uid = None \<or>
           (\<exists>u i. stored w uid = Some u \<and> u ''current_lesson'' = Some (PInt i) \<and>
                  int (length L) \<le> i)"
  shows "current_of L w uid = Inr None"
  using assms by (auto simp: current_of_def stored_def dict_get_def)

text \<open>
  C5. When the user's record exists and its \<open>current_lesson\<close> is an index \<open>i\<close> of the
  catalog, each of the three reply handlers ends normally and appends exactly one row to
  the connected responses sheet, carrying \<open>str(i)\<close>, the index read before any change of
  the record, and the title of lesson \<open>i\<close>. When there is no record, or \<open>current_lesson\<close>
  is \<open>len(LESSONS)\<close> or more, each handler returns in the world it started in, so no row
  is appended.
\<close>

theorem reply_appends_one_response:
  "(stored w (str_int (effective_user_id upd)) = Some u \<and> u ''current_lesson'' = Some (PInt i) \<and> 0 \<le> i \<and>
    i < int (length LESSONS) \<and> responses_sheet w = Some rs \<longrightarrow>
      (\<exists>w'. handle_response LESSONS e upd w = Inr w' \<and>
            responses_sheet w' =
              Some (rs @ [[now e, str_int (effective_user_id upd), username_of upd, str_int i, title (LESSONS ! nat i),
                           fst (classify upd), snd (classify upd)]])) \<and>
      (\<exists>w'. handle_voice LESSONS e upd w = Inr w' \<and>
            responses_sheet w' =
              Some (rs @ [[now e, str_int (effective_user_id upd), username_of upd, str_int i, title (LESSONS ! nat i),
                           ''[VOICE MESSAGE]'', ''voice'']])) \<and>
      (\<exists>w'. handle_document LESSONS e upd w = Inr w' \<and>
            responses_sheet w' =
              Some (rs @ [[now e, str_int (effective_user_id upd), username_of upd, str_int i, title (LESSONS ! nat i),
                           ''[DOCUMENT: '' @ document_name upd @ '']'', ''document'']]))) \<and>
   (stored w (str_int (effective_user_id upd)) = None \<or>
    (\<exists>u i. stored w (str_int (effective_user_id upd)) = Some u \<and> u ''current_lesson'' = Some (PInt i) \<and>
           int (length LESSONS) \<le> i) \<longrightarrow>
      handle_response LESSONS e upd w = Inr w \<and>
      handle_voice LESSONS e upd w = Inr w \<and>
      handle_document LESSONS e upd w = Inr w)"
proof (intro conjI impI)
  assume a: "stored w (str_int (effective_user_id upd)) = Some u \<and> u ''current_lesson'' = Some (PInt i) \<and> 0 \<le> i \<and>
    i < int (length LESSONS) \<and> responses_sheet w = Some rs"
  then have c: "current_of LESSONS w (str_int (effective_user_id upd)) =
                  Inr (Some (u, i, LESSONS ! nat i))"
    by (simp add: current_of_valid)
  from a have rs: "responses_sheet w = Some rs" by simp
  show "\<exists>w'. handle_response LESSONS e upd w = Inr w' \<and>
            responses_sheet w' =
              Some (rs @ [[now e, str_int (effective_user_id upd), username_of upd, str_int i, title (LESSONS ! nat i),
                           fst (classify upd), snd (classify upd)]])"
    by (simp add: handle_response_def c rs save_response_to_sheet_def reply_def
        split_beta Let_def)
  show "\<exists>w'. handle_voice LESSONS e upd w = Inr w' \<and>
            responses_sheet w' =
              Some (rs @ [[now e, str_int (effective_user_id upd), username_of upd, str_int i, title (LESSONS ! nat i),
                           ''[VOICE MESSAGE]'', ''voice'']])"
    by (simp add: handle_voice_def c rs save_response_to_sheet_def reply_def)
  show "\<exists>w'. handle_document LESSONS e upd w = Inr w' \<and>
            responses_sheet w' =
              Some (rs @ [[now e, str_int (effective_user_id upd), username_of upd, str_int i, title (LESSONS ! nat i),
                           ''[DOCUMENT: '' @ document_name upd @ '']'', ''document'']])"
    by (simp add: handle_document_def c rs save_response_to_sheet_def reply_def)
next
  assume "stored w (str_int (effective_user_id upd)) = None \<or>
    (\<exists>u i. stored w (str_int (effective_user_id upd)) = Some u \<and> u ''current_lesson'' = Some (PInt i) \<and>
           int (length LESSONS) \<le> i)"
  then have c: "current_of LESSONS w (str_int (effective_user_id upd)) = Inr None"
    by (rule current_of_ignored)
  show "handle_response LESSONS e upd w = Inr w" by (simp add: handle_response_def c)
  show "handle_voice LESSONS e upd w = Inr w" by (simp add: handle_voice_def c)
  show "handle_document LESSONS e upd w = Inr w" by (simp add: handle_document_def c)
qed

text \<open>
  The theorem at work: user 7 at lesson 1 sends a voice message and a text, and a text
  again with \<open>current_lesson = 3\<close>, beyond the three lessons.
\<close>

theorem reply_appends_one_response_witness:
  "(\<exists>w'. handle_voice demo_lessons (demo_env True) demo_voice
            (demo_world ''1'' ''False'' ''False'') = Inr w' \<and>
         responses_sheet w' =
           Some [[''t1'', ''7'', ''bob'', ''1'', ''Lesson 2'', ''[VOICE MESSAGE]'', ''voice'']]) \<and>
   (\<exists>w'. handle_response demo_lessons (demo_env True) demo_text
            (demo_world ''1'' ''False'' ''False'') = Inr w' \<and>
         responses_sheet w' =
           Some [[''t1'', ''7'', ''bob'', ''1'', ''Lesson 2'', ''done'', ''text'']]) \<and>
   handle_response demo_lessons (demo_env True) demo_text (demo_world ''3'' ''False'' ''False'')
     = Inr (demo_world ''3'' ''False'' ''False'')"
proof -
  let ?w = "demo_world ''1'' ''False'' ''False''"
  let ?u = "the (stored ?w ''7'')"
  let ?w3 = "demo_world ''3'' ''False'' ''False''"
  let ?u3 = "the (stored ?w3 ''7'')"
  have idv: "str_int (effective_user_id demo_voice) = ''7''"
    and idt: "str_int (effective_user_id demo_text) = ''7''"
    by (simp_all add: demo_simps)
  have h: "stored ?w ''7'' = Some ?u \<and> ?u ''current_lesson'' = Some (PInt 1) \<and> (0::int) \<le> 1 \<and>
           1 < int (length demo_lessons) \<and> responses_sheet ?w = Some []"
    by (simp add: stored_def demo_simps)
  have g: "stored ?w3 ''7'' = None \<or>
           (\<exists>u i. stored ?w3 ''7'' = Some u \<and> u ''current_lesson'' = Some (PInt i) \<and>
                  int (length demo_lessons) \<le> i)"
  proof -
    have "stored ?w3 ''7'' = Some ?u3 \<and> ?u3 ''current_lesson'' = Some (PInt 3) \<and>
          int (length demo_lessons) \<le> 3"
      by (simp add: stored_def demo_simps)
    then show ?thesis by blast
  qed
  have nm: "title (demo_lessons ! Suc 0) = ''Lesson 2''"
    "username_of demo_voice = ''bob''" "username_of demo_text = ''bob''"
    "classify demo_text = (''done'', ''text'')" "now (demo_env True) = ''t1''"
    by (simp_all add: username_of_def classify_def demo_simps)
  note V = reply_appends_one_response
             [of ?w demo_voice ?u 1 demo_lessons "[]" "demo_env True", unfolded idv]
  note T = reply_appends_one_response
             [of ?w demo_text ?u 1 demo_lessons "[]" "demo_env True", unfolded idt]
  note I = reply_appends_one_response
             [of ?w3 demo_text ?u3 0 demo_lessons "[]" "demo_env True", unfolded idt]
  from V [THEN conjunct1, THEN mp, OF h]
  have 1: "\<exists>w'. handle_voice demo_lessons (demo_env True) demo_voice ?w = Inr w' \<and>
         responses_sheet w' =
           Some [[''t1'', ''7'', ''bob'', ''1'', ''Lesson 2'', ''[VOICE MESSAGE]'', ''voice'']]"
    by (simp add: nm str_int_demo)
  from T [THEN conjunct1, THEN mp, OF h]
  have 2: "\<exists>w'. handle_response demo_lessons (demo_env True) demo_text ?w = Inr w' \<and>
         responses_sheet w' =
           Some [[''t1'', ''7'', ''bob'', ''1'', ''Lesson 2'', ''done'', ''text'']]"
    by (simp add: nm str_int_demo)
  from I [THEN conjunct2, THEN mp, OF g]
  have 3: "handle_response demo_lessons (demo_env True) demo_text ?w3 = Inr ?w3"
    by simp
  from 1 2 3 show ?thesis by blast
qed

section \<open>Which replies advance the course\<close>

text \<open>
  A text or photo reply runs \<open>handle_response\<close>: for a record at a lesson that is not
  final it stores \<open>current_lesson + 1\<close> and the time, and queues the job for the next
  lesson. A voice message runs \<open>handle_voice\<close> and a document \<open>handle_document\<close>, and
  these two write to the responses sheet only: they never change the users sheet or the
  job queue.
\<close>

lemma handle_response_advances:
  assumes sh: "users_sheet w = Some (HEADERS # rows)"
      and st: "stored w (str_int (effective_user_id upd)) = Some u"
      and cl: "u ''current_lesson'' = Some (PInt i)"
      and i: "0 \<le> i" "i < int (length L)"
      and nf: "\<not> is_final (L ! nat i)"
      and arm: "arm_ok e"
  shows "\<exists>w' u'. handle_response L e upd w = Inr w' \<and>
           stored w' (str_int (effective_user_id upd)) = Some u' \<and>
           u' ''current_lesson'' = Some (PInt (i + 1)) \<and>
           u' ''last_lesson_sent'' = Some (PStr (now e)) \<and>
           (\<forall>k v. u k = Some v \<and> k \<noteq> ''current_lesson'' \<and> k \<noteq> ''last_lesson_sent''
                  \<longrightarrow> u' k = Some v) \<and>
           job_queue w' = job_queue w @
             [\<lparr>job_when = 5, job_user_id = str_int (effective_user_id upd),
               job_lesson_index = i + 1\<rparr>] \<and>
           outbox w' = outbox w @ [(ReplyTo (effective_user_id upd), Notice NextLessonSoon)]"
proof -
  let ?uid = "str_int (effective_user_id upd)"
  let ?d = "u(''current_lesson'' \<mapsto> PInt (i + 1), ''last_lesson_sent'' \<mapsto> PStr (now e))"
  have c: "current_of L w ?uid = Inr (Some (u, i, L ! nat i))"
    using st cl i by (rule current_of_valid)
  from st sh have "get_user_from_sheet (Some (HEADERS # rows)) ?uid = Some u"
    by (simp add: stored_def)
  then have tu: "typed_record u" and iu: "u ''user_id'' = Some (PStr ?uid)"
    using get_user_typed [of "HEADERS # rows" ?uid u] by simp_all
  have td: "typed_record ?d"
    using tu by (intro typed_record_update_last_lesson_sent typed_record_update_current_lesson)
  have idd: "?d ''user_id'' = Some (PStr ?uid)" using iu by simp
  from persist [OF td idd, of "now e" rows] obtain rows1 u1 where
    s1: "save_user_to_sheet (now e) (Some (HEADERS # rows)) ?d = Some (HEADERS # rows1)" and
    g1: "get_user_from_sheet (Some (HEADERS # rows1)) ?uid = Some u1" and
    m1: "?d \<subseteq>\<^sub>m u1"
    by blast
  let ?w' = "reply upd NextLessonSoon
      (w\<lparr>responses_sheet :=
           save_response_to_sheet (now e) (responses_sheet w) ?uid (username_of upd) i
             (title (L ! nat i)) (fst (classify upd)) (snd (classify upd)),
         users_sheet := Some (HEADERS # rows1),
         job_queue := job_queue w @
           [\<lparr>job_when = 5, job_user_id = ?uid, job_lesson_index = i + 1\<rparr>]\<rparr>)"
  have r: "handle_response L e upd w = Inr ?w'"
    by (simp add: handle_response_def c nf arm sh s1 split_beta Let_def)
  have "stored ?w' ?uid = Some u1" using g1 by (simp add: stored_def reply_def)
  moreover have "u1 ''current_lesson'' = Some (PInt (i + 1))"
    using m1 by (auto intro: map_le_lookup)
  moreover have "u1 ''last_lesson_sent'' = Some (PStr (now e))"
    using m1 by (auto intro: map_le_lookup)
  moreover have "u k = Some v \<Longrightarrow> k \<noteq> ''current_lesson'' \<Longrightarrow> k \<noteq> ''last_lesson_sent''
      \<Longrightarrow> u1 k = Some v" for k v
    using m1 by (auto intro: map_le_lookup)
  moreover have "job_queue ?w' = job_queue w @
      [\<lparr>job_when = 5, job_user_id = ?uid, job_lesson_index = i + 1\<rparr>]"
    by (simp add: reply_def)
  moreover have "outbox ?w' = outbox w @ [(ReplyTo (effective_user_id upd), Notice NextLessonSoon)]"
    by (simp add: reply_def)
  ultimately show ?thesis using r by blast
qed

lemma handle_voice_keeps_progress:
  "handle_voice L e upd w = Inr w' \<Longrightarrow>
     users_sheet w' = users_sheet w \<and> job_queue w' = job_queue w"
  by (auto simp: handle_voice_def reply_def Let_def split: sum.splits option.splits)

lemma handle_document_keeps_progress:
  "handle_document L e upd w = Inr w' \<Longrightarrow>
     users_sheet w' = users_sheet w \<and> job_queue w' = job_queue w"
  by (auto simp: handle_document_def reply_def Let_def split: sum.splits option.splits)

text \<open>
  C1. The claim asks every reply, a voice message or a document too, to advance the
  record and arm the scheduler. The handler table of \<open>main\<close> on user 7 at lesson 0 of
  three: a voice message and a document are logged and thanked for, the record still has
  \<open>current_lesson = 0\<close> and no job is queued; the text reply on the same world stores
  \<open>current_lesson = 1\<close> and queues the job for lesson 1.
\<close>

theorem voice_and_document_replies_do_not_advance:
  "handle_update demo_lessons (demo_env True) demo_voice (demo_world ''0'' ''False'' ''False'') =
     Inr ((demo_world ''0'' ''False'' ''False'')
            \<lparr>responses_sheet :=
               Some [[''t1'', ''7'', ''bob'', ''0'', ''Lesson 1'', ''[VOICE MESSAGE]'', ''voice'']],
             outbox := [(ReplyTo 7, Notice ThanksVoice)]\<rparr>) \<and>
   handle_update demo_lessons (demo_env True) demo_document (demo_world ''0'' ''False'' ''False'') =
     Inr ((demo_world ''0'' ''False'' ''False'')
            \<lparr>responses_sheet :=
               Some [[''t1'', ''7'', ''bob'', ''0'', ''Lesson 1'', ''[DOCUMENT: plan.pdf]'',
                      ''document'']],
             outbox := [(ReplyTo 7, Notice ThanksDocument)]\<rparr>) \<and>
   handle_update demo_lessons (demo_env True) demo_text (demo_world ''0'' ''False'' ''False'') =
     Inr \<lparr>users_sheet = Some [HEADERS, [''7'', ''bob'', ''1'', ''False'', ''t1'', ''False'', ''t0'']],
          responses_sheet = Some [[''t1'', ''7'', ''bob'', ''0'', ''Lesson 1'', ''done'', ''text'']],
          outbox = [(ReplyTo 7, Notice NextLessonSoon)],
          job_queue = [\<lparr>job_when = 5, job_user_id = ''7'', job_lesson_index = 1\<rparr>]\<rparr>"
  by (simp add: handle_update_def handle_voice_def handle_document_def handle_response_def
      current_of_def reply_def username_of_def classify_def document_name_def demo_simps Let_def)

section \<open>Replies while the course is paused\<close>

text \<open>
  \<open>send_lesson\<close> tests \<open>paused\<close> and delivers nothing to a paused user, whoever calls it.
\<close>

lemma send_lesson_paused:
  assumes "stored w uid = Some u" and "u ''paused'' = Some (PBool True)"
  shows "send_lesson L e via uid i w = Inr w \<or> send_lesson L e via uid i w = Inl IndexError"
  using assms by (simp add: send_lesson_def stored_def dict_get_def split: option.splits)

text \<open>
  C2. The claim asks that no message but \<open>/resume\<close> changes \<open>current_lesson\<close> while the
  course is paused. \<open>handle_response\<close> does not test \<open>paused\<close>: user 7 pauses at lesson
  0 and then sends a text, and the record is stored with \<open>current_lesson = 1\<close>, still
  paused, with the job for lesson 1 queued.
\<close>

theorem reply_while_paused_advances:
  "pause (demo_env True) demo_text (demo_world ''0'' ''False'' ''False'') =
     (demo_world ''0'' ''True'' ''False'')\<lparr>outbox := [(ReplyTo 7, Notice CoursePaused)]\<rparr> \<and>
   handle_update demo_lessons (demo_env True) demo_text
       ((demo_world ''0'' ''True'' ''False'')\<lparr>outbox := [(ReplyTo 7, Notice CoursePaused)]\<rparr>) =
     Inr \<lparr>users_sheet = Some [HEADERS, [''7'', ''bob'', ''1'', ''True'', ''t1'', ''False'', ''t0'']],
          responses_sheet = Some [[''t1'', ''7'', ''bob'', ''0'', ''Lesson 1'', ''done'', ''text'']],
          outbox = [(ReplyTo 7, Notice CoursePaused), (ReplyTo 7, Notice NextLessonSoon)],
          job_queue = [\<lparr>job_when = 5, job_user_id = ''7'', job_lesson_index = 1\<rparr>]\<rparr>"
  by (simp add: pause_def handle_update_def handle_response_def
      current_of_def reply_def username_of_def classify_def demo_simps Let_def)

section \<open>The start command\<close>

text \<open>
  \<open>start\<close> builds a fresh record from the update and the clock and saves it. The record
  read back afterwards is the same whatever the sheet held for the user before, and a
  second save for the same user overwrites the row the first one wrote.
\<close>

lemma start_data_user_id:
  "start_data e upd ''user_id'' = Some (PStr (str_int (effective_user_id upd)))"
  by (simp add: start_data_def)

lemma reload_start_data:
  "reload t (start_data e upd) =
     Some [''user_id'' \<mapsto> PStr (str_int (effective_user_id upd)),
           ''username'' \<mapsto> PStr (username_of upd),
           ''current_lesson'' \<mapsto> PInt 0,
           ''paused'' \<mapsto> PBool False,
           ''last_lesson_sent'' \<mapsto> PStr ''None'',
           ''completed'' \<mapsto> PBool False,
           ''created_at'' \<mapsto> PStr (now e)]"
proof -
  have z: "py_int (str_int 0) = Some 0" by (rule py_int_str_int)
  have f: "py_lower ''False'' \<noteq> ''true''" using lower_bool [of False] by simp
  show ?thesis
    by (simp add: reload_eq start_data_def dict_get_def z f)
qed

lemma row_data_start_data:
  "row_data t (start_data e upd) =
     [str_int (effective_user_id upd), username_of upd, str_int 0, ''False'', ''None'', ''False'',
      now e]"
  by (simp add: row_data_def start_data_def dict_get_def)

lemma save_then_get_empty:
  assumes "d ''user_id'' = Some (PStr uid)"
  shows "get_user_from_sheet (save_user_to_sheet t (Some []) d) uid = reload t d"
proof -
  have "row_matches uid (row_data t d)"
    using assms by (simp add: row_data_def dict_get_def)
  then show ?thesis
    by (simp add: save_empty get_user_rows reload_def)
qed

lemma start_stored:
  assumes "users_sheet w = Some sh" and "sh = [] \<or> (\<exists>rows. sh = HEADERS # rows)"
  shows "stored (start e upd w) (str_int (effective_user_id upd)) =
           reload (now e) (start_data e upd)"
proof -
  from assms(2) show ?thesis
  proof
    assume "sh = []"
    then show ?thesis
      using assms(1)
        save_then_get_empty [where d = "start_data e upd" and t = "now e"
          and uid = "str_int (effective_user_id upd)"]
      by (simp add: stored_def start_def reply_def start_data_user_id)
  next
    assume "\<exists>rows. sh = HEADERS # rows"
    then obtain rows where sh: "sh = HEADERS # rows" by blast
    from start_data_user_id
      get_after_save_rows [where d = "start_data e upd" and t = "now e" and rows = rows
        and uid = "str_int (effective_user_id upd)"]
    obtain rows' where
      "save_user_to_sheet (now e) (Some (HEADERS # rows)) (start_data e upd) = Some (HEADERS # rows')"
      "get_user_from_sheet (Some (HEADERS # rows')) (str_int (effective_user_id upd)) =
         reload (now e) (start_data e upd)"
      by blast
    then show ?thesis
      using assms(1) sh by (simp add: stored_def start_def reply_def)
  qed
qed

lemma length_row_data: "length (row_data t d) = 7"
  by (simp add: row_data_def)

lemma save_twice:
  assumes u1: "d1 ''user_id'' = Some (PStr uid)" and u2: "d2 ''user_id'' = Some (PStr uid)"
      and sh: "sh = [] \<or> (\<exists>rows. sh = HEADERS # rows)"
  shows "save_user_to_sheet t2 (save_user_to_sheet t1 (Some sh) d1) d2 =
         save_user_to_sheet t2 (Some sh) d2"
proof -
  have k1: "py_str (dict_get d1 ''user_id'' PNone) = uid"
    and k2: "py_str (dict_get d2 ''user_id'' PNone) = uid"
    by (simp_all add: dict_get_def u1 u2)
  have m1: "row_matches uid (row_data t1 d1 @ rest)" for rest
    using u1 by (rule row_data_matches)
  have m1': "row_matches uid (row_data t1 d1)"
    using m1 [of "[]"] by simp
  have dr: "drop 7 (row_data t1 d1 @ rest) = rest" for rest
    by (simp add: length_row_data)
  have dr': "drop 7 (row_data t1 d1) = []"
    by (simp add: length_row_data)
  from sh show ?thesis
  proof
    assume e: "sh = []"
    have "save_user_to_sheet t2 (Some [HEADERS, row_data t1 d1]) d2 = Some [HEADERS, row_data t2 d2]"
      by (simp add: save_rows HEADERS_nonempty k2 m1' dr')
    then show ?thesis by (simp add: e save_empty)
  next
    assume "\<exists>rows. sh = HEADERS # rows"
    then obtain rows where e: "sh = HEADERS # rows" by blast
    show ?thesis
    proof (cases "find_row uid rows")
      case None
      have f: "find_row uid (rows @ [row_data t1 d1]) = Some (length rows)"
        by (simp add: find_row_append None m1')
      show ?thesis
        by (simp add: e save_rows HEADERS_nonempty k1 k2 None f dr')
    next
      case (Some k)
      then have kl: "k < length rows" by (simp add: find_row_SomeD)
      have f: "find_row uid (rows[k := row_data t1 d1 @ drop 7 (rows ! k)]) = Some k"
        using Some m1 by (rule find_row_update_same)
      show ?thesis
        by (simp add: e save_rows HEADERS_nonempty k1 k2 Some f kl length_row_data)
    qed
  qed
qed

text \<open>
  C7. On a connected users sheet that is empty or starts with the header row, whether or
  not the user has a row: after \<open>start\<close> the stored record has \<open>current_lesson = 0\<close>,
  \<open>completed = False\<close> and \<open>paused = False\<close>; running \<open>start\<close> twice leaves the users
  sheet that running the second \<open>start\<close> alone leaves, so nothing accumulates; and \<open>start\<close>
  touches neither the responses sheet nor the job queue.
\<close>

theorem start_resets_and_is_idempotent:
  assumes "users_sheet w = Some sh" and "sh = [] \<or> (\<exists>rows. sh = HEADERS # rows)"
  shows "(\<exists>u. stored (start e upd w) (str_int (effective_user_id upd)) = Some u \<and>
             u ''current_lesson'' = Some (PInt 0) \<and>
             u ''completed'' = Some (PBool False) \<and>
             u ''paused'' = Some (PBool False)) \<and>
         users_sheet (start e2 upd (start e1 upd w)) = users_sheet (start e2 upd w) \<and>
         responses_sheet (start e upd w) = responses_sheet w \<and>
         job_queue (start e upd w) = job_queue w"
proof -
  have "stored (start e upd w) (str_int (effective_user_id upd)) =
          reload (now e) (start_data e upd)"
    using assms by (rule start_stored)
  then have 1: "\<exists>u. stored (start e upd w) (str_int (effective_user_id upd)) = Some u \<and>
             u ''current_lesson'' = Some (PInt 0) \<and>
             u ''completed'' = Some (PBool False) \<and>
             u ''paused'' = Some (PBool False)"
    by (simp add: reload_start_data)
  have 2: "users_sheet (start e2 upd (start e1 upd w)) = users_sheet (start e2 upd w)"
    using assms
      save_twice [where ?d1.0 = "start_data e1 upd" and ?d2.0 = "start_data e2 upd"
        and uid = "str_int (effective_user_id upd)" and sh = sh and ?t1.0 = "now e1"
        and ?t2.0 = "now e2"]
    by (simp add: start_def reply_def start_data_user_id)
  have 3: "responses_sheet (start e upd w) = responses_sheet w \<and>
           job_queue (start e upd w) = job_queue w"
    by (simp add: start_def reply_def)
  from 1 2 3 show ?thesis by blast
qed

text \<open>
  The theorem at work: user 7, paused and completed at lesson 2, sends \<open>/start\<close>, once and
  twice.
\<close>

theorem start_resets_and_is_idempotent_witness:
  "(\<exists>u. stored (start (demo_env True) demo_text (demo_world ''2'' ''True'' ''True'')) ''7'' = Some u \<and>
        u ''current_lesson'' = Some (PInt 0) \<and>
        u ''completed'' = Some (PBool False) \<and>
        u ''paused'' = Some (PBool False)) \<and>
   users_sheet (start (demo_env True) demo_text
                  (start (demo_env False) demo_text (demo_world ''2'' ''True'' ''True''))) =
   users_sheet (start (demo_env True) demo_text (demo_world ''2'' ''True'' ''True''))"
proof -
  let ?w = "demo_world ''2'' ''True'' ''True''"
  have idt: "str_int (effective_user_id demo_text) = ''7''"
    by (simp add: demo_simps)
  have h1: "users_sheet ?w = Some [HEADERS, demo_row ''2'' ''True'' ''True'']"
    by (simp add: demo_world_def)
  have h2: "[HEADERS, demo_row ''2'' ''True'' ''True''] = [] \<or>
            (\<exists>rows. [HEADERS, demo_row ''2'' ''True'' ''True''] = HEADERS # rows)"
    by simp
  from start_resets_and_is_idempotent
         [OF h1 h2, of "demo_env True" demo_text "demo_env True" "demo_env False", unfolded idt]
  show ?thesis by blast
qed

text \<open>
  C10, as amended. For a user with a record, \<open>start\<close> overwrites the whole record: the
  record read back has the sender's current username, \<open>current_lesson = 0\<close>, \<open>paused\<close> and
  \<open>completed\<close> false, and \<open>created_at\<close> the current time; nothing in it depends on the
  record before. \<open>last_lesson_sent\<close> is not null afterwards: \<open>start\<close> puts Python's
  \<open>None\<close> into the dict, \<open>save_user_to_sheet\<close> writes \<open>str(None)\<close>, and the stored field
  is the text \<open>None\<close>. On the sheet the first seven cells of the user's row are replaced
  in place.
\<close>

theorem start_overwrites_whole_record:
  assumes "users_sheet w = Some (HEADERS # rows)"
      and "stored w (str_int (effective_user_id upd)) = Some u"
  shows "stored (start e upd w) (str_int (effective_user_id upd)) =
           Some [''user_id'' \<mapsto> PStr (str_int (effective_user_id upd)),
                 ''username'' \<mapsto> PStr (username_of upd),
                 ''current_lesson'' \<mapsto> PInt 0,
                 ''paused'' \<mapsto> PBool False,
                 ''last_lesson_sent'' \<mapsto> PStr ''None'',
                 ''completed'' \<mapsto> PBool False,
                 ''created_at'' \<mapsto> PStr (now e)] \<and>
         (\<exists>k. find_row (str_int (effective_user_id upd)) rows = Some k \<and> k < length rows \<and>
              users_sheet (start e upd w) =
                Some (HEADERS # rows[k := [str_int (effective_user_id upd), username_of upd,
                                           ''0'', ''False'', ''None'', ''False'', now e]
                                          @ drop 7 (rows ! k)]))"
proof -
  let ?uid = "str_int (effective_user_id upd)"
  have sh: "HEADERS # rows = [] \<or> (\<exists>rs. HEADERS # rows = HEADERS # rs)" by simp
  have 1: "stored (start e upd w) ?uid = reload (now e) (start_data e upd)"
    using assms(1) sh by (rule start_stored)
  from assms obtain k where k: "find_row ?uid rows = Some k"
    by (auto simp: stored_def get_user_rows split: option.splits)
  then have kl: "k < length rows" by (simp add: find_row_SomeD)
  have key: "py_str (dict_get (start_data e upd) ''user_id'' PNone) = ?uid"
    by (simp add: dict_get_def start_data_user_id)
  have 2: "users_sheet (start e upd w) =
             Some (HEADERS # rows[k := [?uid, username_of upd, ''0'', ''False'', ''None'',
                                        ''False'', now e] @ drop 7 (rows ! k)])"
    using assms(1)
    by (simp add: start_def reply_def save_rows HEADERS_nonempty key k row_data_start_data
        str_int_demo)
  from 1 2 k kl show ?thesis by (simp add: reload_start_data)
qed

text \<open>
  The theorem at work: user 7, paused and completed at lesson 2 under the name bob, sends
  \<open>/start\<close> under the name robert.
\<close>

theorem start_overwrites_whole_record_witness:
  "stored (start (demo_env True) (demo_text\<lparr>effective_username := Some ''robert''\<rparr>)
             (demo_world ''2'' ''True'' ''True'')) ''7'' =
     Some [''user_id'' \<mapsto> PStr ''7'', ''username'' \<mapsto> PStr ''robert'',
           ''current_lesson'' \<mapsto> PInt 0, ''paused'' \<mapsto> PBool False,
           ''last_lesson_sent'' \<mapsto> PStr ''None'', ''completed'' \<mapsto> PBool False,
           ''created_at'' \<mapsto> PStr ''t1''] \<and>
   users_sheet (start (demo_env True) (demo_text\<lparr>effective_username := Some ''robert''\<rparr>)
                  (demo_world ''2'' ''True'' ''True'')) =
     Some [HEADERS, [''7'', ''robert'', ''0'', ''False'', ''None'', ''False'', ''t1'']]"
proof -
  let ?w = "demo_world ''2'' ''True'' ''True''"
  let ?upd = "demo_text\<lparr>effective_username := Some ''robert''\<rparr>"
  have idt: "str_int (effective_user_id ?upd) = ''7''"
    by (simp add: demo_simps)
  have h1: "users_sheet ?w = Some (HEADERS # [demo_row ''2'' ''True'' ''True''])"
    by (simp add: demo_world_def)
  have h2: "stored ?w (str_int (effective_user_id ?upd)) = Some (the (stored ?w ''7''))"
    by (simp add: idt) (simp add: stored_def demo_simps)
  have n: "username_of ?upd = ''robert''" "now (demo_env True) = ''t1''"
    by (simp_all add: username_of_def demo_simps)
  from start_overwrites_whole_record [OF h1 h2, of "demo_env True", unfolded idt]
  show ?thesis
    by (auto simp: n demo_row_def)
qed

text \<open>
  C10 as the claim states it fails at \<open>last_lesson_sent\<close>: user 7, paused and completed
  at lesson 2, sends \<open>/start\<close>; the cell holds the text \<open>None\<close>, and the field read back
  is that string, which is not Python's \<open>None\<close> and is true as a condition.
\<close>

theorem start_last_lesson_sent_is_text_counterexample:
  "users_sheet (start (demo_env True) demo_text (demo_world ''2'' ''True'' ''True'')) =
     Some [HEADERS, [''7'', ''bob'', ''0'', ''False'', ''None'', ''False'', ''t1'']] \<and>
   the (stored (start (demo_env True) demo_text (demo_world ''2'' ''True'' ''True'')) ''7'')
     ''last_lesson_sent'' = Some (PStr ''None'') \<and>
   the (stored (start (demo_env True) demo_text (demo_world ''2'' ''True'' ''True'')) ''7'')
     ''last_lesson_sent'' \<noteq> Some PNone \<and>
   py_truthy (PStr ''None'')"
  by (simp add: start_def start_data_def reply_def username_of_def stored_def demo_simps Let_def)

section \<open>Resuming and beginning the course\<close>

text \<open>
  A delivery at the index the record already holds leaves that index in the record,
  whatever the catalog and the outcome of the send.
\<close>

lemma send_lesson_keeps_index:
  assumes sh: "users_sheet w = Some (HEADERS # rows)"
      and st: "stored w uid = Some u"
      and np: "u ''paused'' = Some (PBool False)"
      and cl: "u ''current_lesson'' = Some (PInt i)"
      and r: "send_lesson L e via uid i w = Inr w'"
  shows "\<exists>u'. stored w' uid = Some u' \<and> u' ''current_lesson'' = Some (PInt i) \<and>
              u' ''paused'' = Some (PBool False)"
proof (cases "py_index L i")
  case None
  then have "send_lesson L e via uid i w = Inr w \<or> send_lesson L e via uid i w = Inl IndexError"
    by (simp add: send_lesson_def)
  with r have "w' = w" by auto
  with st np cl show ?thesis by simp
next
  case (Some l)
  from send_lesson_effect [OF sh st np Some, of e via] r obtain u' where
    s: "stored w' uid = Some u'" and
    m: "(case send_target e via uid of
           None \<Rightarrow> outbox w' = outbox w \<and> u(''current_lesson'' \<mapsto> PInt i) \<subseteq>\<^sub>m u'
         | Some tg \<Rightarrow>
             outbox w' = outbox w @ [(tg, LessonMessage (lesson_message l))] \<and>
             (if is_final l
              then u(''current_lesson'' \<mapsto> PInt i, ''completed'' \<mapsto> PBool True)
              else u(''current_lesson'' \<mapsto> PInt i)) \<subseteq>\<^sub>m u')"
    by auto
  have "u(''current_lesson'' \<mapsto> PInt i) \<subseteq>\<^sub>m u' \<or>
        u(''current_lesson'' \<mapsto> PInt i, ''completed'' \<mapsto> PBool True) \<subseteq>\<^sub>m u'"
    using m by (auto split: option.splits if_splits)
  then have "u' ''current_lesson'' = Some (PInt i) \<and> u' ''paused'' = Some (PBool False)"
    using np by (auto intro: map_le_lookup)
  with s show ?thesis by simp
qed

lemma update_then_persist:
  assumes sh: "users_sheet w = Some (HEADERS # rows)"
      and st: "stored w uid = Some u"
      and td: "typed_record d" and idd: "d ''user_id'' = Some (PStr uid)"
  shows "\<exists>rows1 u1. save_user_to_sheet t (users_sheet w) d = Some (HEADERS # rows1) \<and>
           get_user_from_sheet (Some (HEADERS # rows1)) uid = Some u1 \<and> d \<subseteq>\<^sub>m u1"
  using persist [OF td idd, of t rows] sh by auto

text \<open>
  C6. For a user with a record, on a users sheet with the header row, \<open>resume\<close> first
  stores \<open>paused = False\<close>, keeping every other entry, and sends the "resumed" notice;
  call the world after that \<open>w1\<close>. If the record is completed, \<open>resume\<close> adds the
  "already completed" notice and ends there, with no delivery. Otherwise it is exactly
  \<open>send_lesson\<close> at the stored \<open>current_lesson\<close> on \<open>w1\<close>. Whenever \<open>resume\<close> ends
  normally the stored \<open>current_lesson\<close> is the one from before and \<open>paused\<close> is false; and
  when the index is inside the catalog and the send succeeds, the text of that lesson is
  sent after the notice.
\<close>

theorem resume_redelivers_current_lesson:
  assumes "users_sheet w = Some (HEADERS # rows)"
      and "stored w (str_int (effective_user_id upd)) = Some u"
  shows "\<exists>cur c w1 u1.
           u ''current_lesson'' = Some (PInt cur) \<and> u ''completed'' = Some (PBool c) \<and>
           stored w1 (str_int (effective_user_id upd)) = Some u1 \<and>
           u1 ''paused'' = Some (PBool False) \<and>
           (\<forall>k v. u k = Some v \<and> k \<noteq> ''paused'' \<longrightarrow> u1 k = Some v) \<and>
           outbox w1 = outbox w @ [(ReplyTo (effective_user_id upd), Notice CourseResumed)] \<and>
           job_queue w1 = job_queue w \<and> responses_sheet w1 = responses_sheet w \<and>
           (c \<longrightarrow> resume LESSONS e upd w = Inr (reply upd CourseAlreadyCompleted w1)) \<and>
           (\<not> c \<longrightarrow> resume LESSONS e upd w =
                    send_lesson LESSONS e (Some upd) (str_int (effective_user_id upd)) cur w1) \<and>
           (\<forall>w'. resume LESSONS e upd w = Inr w' \<longrightarrow>
                 (\<exists>u'. stored w' (str_int (effective_user_id upd)) = Some u' \<and>
                       u' ''current_lesson'' = Some (PInt cur) \<and>
                       u' ''paused'' = Some (PBool False))) \<and>
           (\<not> c \<and> 0 \<le> cur \<and> cur < int (length LESSONS) \<and> send_ok e \<longrightarrow>
              (\<exists>w'. resume LESSONS e upd w = Inr w' \<and>
                    outbox w' = outbox w @
                      [(ReplyTo (effective_user_id upd), Notice CourseResumed),
                       (ReplyTo (effective_user_id upd),
                        LessonMessage (lesson_message (LESSONS ! nat cur)))]))"
proof -
  let ?uid = "str_int (effective_user_id upd)"
  let ?d = "u(''paused'' \<mapsto> PBool False)"
  from assms have g: "get_user_from_sheet (users_sheet w) ?uid = Some u"
    by (simp add: stored_def)
  then have tu: "typed_record u" and iu: "u ''user_id'' = Some (PStr ?uid)"
    using get_user_typed [of "HEADERS # rows" ?uid u] assms(1) by simp_all
  from tu obtain cur c where
    cur: "u ''current_lesson'' = Some (PInt cur)" and c: "u ''completed'' = Some (PBool c)"
    unfolding typed_record_def by blast
  have td: "typed_record ?d" using tu by (rule typed_record_update_paused)
  have idd: "?d ''user_id'' = Some (PStr ?uid)" using iu by simp
  from update_then_persist [OF assms td idd, of "now e"] obtain rows1 u1 where
    s1: "save_user_to_sheet (now e) (users_sheet w) ?d = Some (HEADERS # rows1)" and
    g1: "get_user_from_sheet (Some (HEADERS # rows1)) ?uid = Some u1" and
    m1: "?d \<subseteq>\<^sub>m u1"
    by blast
  let ?w1 = "reply upd CourseResumed (w\<lparr>users_sheet := Some (HEADERS # rows1)\<rparr>)"
  have sh1: "users_sheet ?w1 = Some (HEADERS # rows1)" by (simp add: reply_def)
  have st1: "stored ?w1 ?uid = Some u1" using g1 by (simp add: stored_def reply_def)
  have p1: "u1 ''paused'' = Some (PBool False)" using m1 by (auto intro: map_le_lookup)
  have c1: "u1 ''current_lesson'' = Some (PInt cur)"
    using m1 cur by (auto intro: map_le_lookup)
  have fr: "u k = Some v \<Longrightarrow> k \<noteq> ''paused'' \<Longrightarrow> u1 k = Some v" for k v
    using m1 by (auto intro: map_le_lookup)
  have ob: "outbox ?w1 = outbox w @ [(ReplyTo (effective_user_id upd), Notice CourseResumed)]"
    "job_queue ?w1 = job_queue w" "responses_sheet ?w1 = responses_sheet w"
    by (simp_all add: reply_def)
  have rc: "c \<Longrightarrow> resume LESSONS e upd w = Inr (reply upd CourseAlreadyCompleted ?w1)"
    by (simp add: resume_def g s1 cur c dict_get_def Let_def)
  have rn: "\<not> c \<Longrightarrow> resume LESSONS e upd w = send_lesson LESSONS e (Some upd) ?uid cur ?w1"
    by (simp add: resume_def g s1 cur c dict_get_def Let_def)
  have kept: "\<exists>u'. stored w' ?uid = Some u' \<and> u' ''current_lesson'' = Some (PInt cur) \<and>
                    u' ''paused'' = Some (PBool False)"
    if r: "resume LESSONS e upd w = Inr w'" for w'
  proof (cases c)
    case True
    with r rc have "w' = reply upd CourseAlreadyCompleted ?w1" by simp
    then have "stored w' ?uid = Some u1" using g1 by (simp add: stored_def reply_def)
    with c1 p1 show ?thesis by simp
  next
    case False
    with r rn have "send_lesson LESSONS e (Some upd) ?uid cur ?w1 = Inr w'" by simp
    with sh1 st1 p1 c1 show ?thesis by (rule send_lesson_keeps_index)
  qed
  have deliv: "\<exists>w'. resume LESSONS e upd w = Inr w' \<and>
                 outbox w' = outbox w @
                   [(ReplyTo (effective_user_id upd), Notice CourseResumed),
                    (ReplyTo (effective_user_id upd),
                     LessonMessage (lesson_message (LESSONS ! nat cur)))]"
    if a: "\<not> c \<and> 0 \<le> cur \<and> cur < int (length LESSONS) \<and> send_ok e"
  proof -
    from a have px: "py_index LESSONS cur = Some (LESSONS ! nat cur)"
      by (simp add: py_index_valid)
    from a have tg: "send_target e (Some upd) ?uid = Some (ReplyTo (effective_user_id upd))"
      by (simp add: send_target_def)
    from send_lesson_effect [OF sh1 st1 p1 px, of e "Some upd"] tg obtain w' where
      "send_lesson LESSONS e (Some upd) ?uid cur ?w1 = Inr w'"
      "outbox w' = outbox ?w1 @
         [(ReplyTo (effective_user_id upd), LessonMessage (lesson_message (LESSONS ! nat cur)))]"
      by auto
    with a rn ob show ?thesis by simp
  qed
  from cur c st1 p1 fr ob rc rn kept deliv show ?thesis by blast
qed

text \<open>
  The theorem at work: user 7, paused at lesson 1 of three, sends \<open>/resume\<close>.
\<close>

theorem resume_redelivers_current_lesson_witness:
  "\<exists>w' u'. resume demo_lessons (demo_env True) demo_text (demo_world ''1'' ''True'' ''False'')
              = Inr w' \<and>
           outbox w' = [(ReplyTo 7, Notice CourseResumed),
                        (ReplyTo 7, LessonMessage (lesson_message (demo_lessons ! 1)))] \<and>
           stored w' ''7'' = Some u' \<and>
           u' ''current_lesson'' = Some (PInt 1) \<and>
           u' ''paused'' = Some (PBool False)"
proof -
  let ?w = "demo_world ''1'' ''True'' ''False''"
  let ?u = "the (stored ?w ''7'')"
  have idt: "str_int (effective_user_id demo_text) = ''7''"
    and uid: "effective_user_id demo_text = 7"
    by (simp_all add: demo_simps)
  have h1: "users_sheet ?w = Some (HEADERS # [demo_row ''1'' ''True'' ''False''])"
    by (simp add: demo_world_def)
  have h2: "stored ?w (str_int (effective_user_id demo_text)) = Some ?u"
    by (simp add: idt) (simp add: stored_def demo_simps)
  have h3: "?u ''current_lesson'' = Some (PInt 1)" "?u ''completed'' = Some (PBool False)"
    by (simp_all add: stored_def demo_simps)
  have h4: "1 < int (length demo_lessons)" "send_ok (demo_env True)" "outbox ?w = []"
    by (simp_all add: demo_simps)
  from resume_redelivers_current_lesson [OF h1 h2, of demo_lessons "demo_env True", unfolded uid str_int_demo]
  obtain cur c where
    a: "?u ''current_lesson'' = Some (PInt cur)" "?u ''completed'' = Some (PBool c)" and
    k: "\<forall>w'. resume demo_lessons (demo_env True) demo_text ?w = Inr w' \<longrightarrow>
             (\<exists>u'. stored w' ''7'' = Some u' \<and> u' ''current_lesson'' = Some (PInt cur) \<and>
                   u' ''paused'' = Some (PBool False))" and
    d: "\<not> c \<and> 0 \<le> cur \<and> cur < int (length demo_lessons) \<and> send_ok (demo_env True) \<longrightarrow>
          (\<exists>w'. resume demo_lessons (demo_env True) demo_text ?w = Inr w' \<and>
                outbox w' = outbox ?w @
                  [(ReplyTo 7, Notice CourseResumed),
                   (ReplyTo 7, LessonMessage (lesson_message (demo_lessons ! nat cur)))])"
    by (elim exE conjE) (rule that, assumption+)
  from a h3 have cc: "cur = 1" "\<not> c" by simp_all
  with d h4 obtain w' where
    w': "resume demo_lessons (demo_env True) demo_text ?w = Inr w'"
        "outbox w' = [(ReplyTo 7, Notice CourseResumed),
                      (ReplyTo 7, LessonMessage (lesson_message (demo_lessons ! 1)))]"
    by auto
  with k cc show ?thesis by auto
qed

text \<open>
  C8. \<open>handle_start_course\<close>, the handler of the "begin course" button. With a record
  that is not paused, on a users sheet with the header row, it stores the time in
  \<open>last_lesson_sent\<close>, keeping every other entry, and then is exactly \<open>send_lesson\<close> at
  index 0; with a non-empty catalog and a successful send, the text of lesson 0 is sent
  and the stored \<open>current_lesson\<close> is 0. With a paused record it only sends the "paused"
  notice: sheets and job queue are untouched and no lesson is sent. With no record it only
  sends the "please start" notice.
\<close>

theorem start_course_delivers_first_lesson:
  "(users_sheet w = Some (HEADERS # rows) \<and>
    stored w (str_int (effective_user_id upd)) = Some u \<and>
    u ''paused'' = Some (PBool False) \<longrightarrow>
      (\<exists>w1 u1.
         stored w1 (str_int (effective_user_id upd)) = Some u1 \<and>
         u1 ''paused'' = Some (PBool False) \<and>
         u1 ''last_lesson_sent'' = Some (PStr (now e)) \<and>
         (\<forall>k v. u k = Some v \<and> k \<noteq> ''last_lesson_sent'' \<longrightarrow> u1 k = Some v) \<and>
         outbox w1 = outbox w \<and>
         handle_start_course LESSONS e upd w =
           send_lesson LESSONS e (Some upd) (str_int (effective_user_id upd)) 0 w1 \<and>
         (LESSONS \<noteq> [] \<and> send_ok e \<longrightarrow>
            (\<exists>w' u'. handle_start_course LESSONS e upd w = Inr w' \<and>
                  outbox w' = outbox w @
                    [(ReplyTo (effective_user_id upd),
                      LessonMessage (lesson_message (LESSONS ! 0)))] \<and>
                  stored w' (str_int (effective_user_id upd)) = Some u' \<and>
                  u' ''current_lesson'' = Some (PInt 0))))) \<and>
   (stored w (str_int (effective_user_id upd)) = Some u \<and> u ''paused'' = Some (PBool True) \<longrightarrow>
      handle_start_course LESSONS e upd w =
        Inr (w\<lparr>outbox := outbox w @ [(ReplyTo (effective_user_id upd), Notice CoursePaused)]\<rparr>)) \<and>
   (stored w (str_int (effective_user_id upd)) = None \<longrightarrow>
      handle_start_course LESSONS e upd w =
        Inr (w\<lparr>outbox := outbox w @ [(ReplyTo (effective_user_id upd), Notice PleaseStart)]\<rparr>))"
proof (intro conjI impI)
  let ?uid = "str_int (effective_user_id upd)"
  let ?d = "u(''paused'' \<mapsto> PBool False, ''last_lesson_sent'' \<mapsto> PStr (now e))"
  assume a: "users_sheet w = Some (HEADERS # rows) \<and> stored w ?uid = Some u \<and>
             u ''paused'' = Some (PBool False)"
  then have sh: "users_sheet w = Some (HEADERS # rows)" and st: "stored w ?uid = Some u"
    and np: "u ''paused'' = Some (PBool False)" by simp_all
  from st have g: "get_user_from_sheet (users_sheet w) ?uid = Some u"
    by (simp add: stored_def)
  then have tu: "typed_record u" and iu: "u ''user_id'' = Some (PStr ?uid)"
    using get_user_typed [of "HEADERS # rows" ?uid u] sh by simp_all
  have td: "typed_record ?d"
    using tu by (intro typed_record_update_last_lesson_sent typed_record_update_paused)
  have idd: "?d ''user_id'' = Some (PStr ?uid)" using iu by simp
  from update_then_persist [OF sh st td idd, of "now e"] obtain rows1 u1 where
    s1: "save_user_to_sheet (now e) (users_sheet w) ?d = Some (HEADERS # rows1)" and
    g1: "get_user_from_sheet (Some (HEADERS # rows1)) ?uid = Some u1" and
    m1: "?d \<subseteq>\<^sub>m u1"
    by blast
  let ?w1 = "w\<lparr>users_sheet := Some (HEADERS # rows1)\<rparr>"
  have sh1: "users_sheet ?w1 = Some (HEADERS # rows1)" by simp
  have st1: "stored ?w1 ?uid = Some u1" using g1 by (simp add: stored_def)
  have p1: "u1 ''paused'' = Some (PBool False)" using m1 by (auto intro: map_le_lookup)
  have l1: "u1 ''last_lesson_sent'' = Some (PStr (now e))"
    using m1 by (auto intro: map_le_lookup)
  have fr: "u k = Some v \<Longrightarrow> k \<noteq> ''last_lesson_sent'' \<Longrightarrow> u1 k = Some v" for k v
    using m1 np by (cases "k = ''paused''") (auto intro: map_le_lookup)
  have eq: "handle_start_course LESSONS e upd w = send_lesson LESSONS e (Some upd) ?uid 0 ?w1"
    by (simp add: handle_start_course_def g np dict_get_def s1 Let_def)
  have deliv: "\<exists>w' u'. handle_start_course LESSONS e upd w = Inr w' \<and>
                  outbox w' = outbox w @
                    [(ReplyTo (effective_user_id upd),
                      LessonMessage (lesson_message (LESSONS ! 0)))] \<and>
                  stored w' ?uid = Some u' \<and> u' ''current_lesson'' = Some (PInt 0)"
    if b: "LESSONS \<noteq> [] \<and> send_ok e"
  proof -
    from b have px: "py_index LESSONS 0 = Some (LESSONS ! 0)"
      by (simp add: py_index_def)
    from b have tg: "send_target e (Some upd) ?uid = Some (ReplyTo (effective_user_id upd))"
      by (simp add: send_target_def)
    from send_lesson_effect [OF sh1 st1 p1 px, of e "Some upd"] tg obtain w' u' where
      r: "send_lesson LESSONS e (Some upd) ?uid 0 ?w1 = Inr w'"
         "stored w' ?uid = Some u'"
         "outbox w' = outbox ?w1 @
            [(ReplyTo (effective_user_id upd), LessonMessage (lesson_message (LESSONS ! 0)))]" and
      m: "(if is_final (LESSONS ! 0)
           then u1(''current_lesson'' \<mapsto> PInt 0, ''completed'' \<mapsto> PBool True)
           else u1(''current_lesson'' \<mapsto> PInt 0)) \<subseteq>\<^sub>m u'"
      by auto
    have "u' ''current_lesson'' = Some (PInt 0)"
      using m by (auto intro: map_le_lookup split: if_splits)
    with r eq show ?thesis by simp
  qed
  from st1 p1 l1 fr eq deliv
  show "\<exists>w1 u1.
         stored w1 ?uid = Some u1 \<and>
         u1 ''paused'' = Some (PBool False) \<and>
         u1 ''last_lesson_sent'' = Some (PStr (now e)) \<and>
         (\<forall>k v. u k = Some v \<and> k \<noteq> ''last_lesson_sent'' \<longrightarrow> u1 k = Some v) \<and>
         outbox w1 = outbox w \<and>
         handle_start_course LESSONS e upd w = send_lesson LESSONS e (Some upd) ?uid 0 w1 \<and>
         (LESSONS \<noteq> [] \<and> send_ok e \<longrightarrow>
            (\<exists>w' u'. handle_start_course LESSONS e upd w = Inr w' \<and>
                  outbox w' = outbox w @
                    [(ReplyTo (effective_user_id upd),
                      LessonMessage (lesson_message (LESSONS ! 0)))] \<and>
                  stored w' ?uid = Some u' \<and>
                  u' ''current_lesson'' = Some (PInt 0)))"
    by (intro exI [of _ ?w1] exI [of _ u1]) simp
next
  assume "stored w (str_int (effective_user_id upd)) = Some u \<and> u ''paused'' = Some (PBool True)"
  then show "handle_start_course LESSONS e upd w =
        Inr (w\<lparr>outbox := outbox w @ [(ReplyTo (effective_user_id upd), Notice CoursePaused)]\<rparr>)"
    by (simp add: handle_start_course_def stored_def dict_get_def reply_def)
next
  assume "stored w (str_int (effective_user_id upd)) = None"
  then show "handle_start_course LESSONS e upd w =
        Inr (w\<lparr>outbox := outbox w @ [(ReplyTo (effective_user_id upd), Notice PleaseStart)]\<rparr>)"
    by (simp add: handle_start_course_def stored_def reply_def)
qed

text \<open>
  The theorem at work: user 7 at lesson 2 presses the button, not paused and paused, and
  a user without a row presses it.
\<close>

theorem start_course_delivers_first_lesson_witness:
  "(\<exists>w' u'. handle_start_course demo_lessons (demo_env True) demo_text
               (demo_world ''2'' ''False'' ''False'') = Inr w' \<and>
            outbox w' = [(ReplyTo 7, LessonMessage (lesson_message (demo_lessons ! 0)))] \<and>
            stored w' ''7'' = Some u' \<and> u' ''current_lesson'' = Some (PInt 0)) \<and>
   handle_start_course demo_lessons (demo_env True) demo_text (demo_world ''2'' ''True'' ''False'') =
     Inr ((demo_world ''2'' ''True'' ''False'')\<lparr>outbox := [(ReplyTo 7, Notice CoursePaused)]\<rparr>) \<and>
   handle_start_course demo_lessons (demo_env True) demo_text
       \<lparr>users_sheet = Some [HEADERS], responses_sheet = Some [], outbox = [], job_queue = []\<rparr> =
     Inr \<lparr>users_sheet = Some [HEADERS], responses_sheet = Some [],
          outbox = [(ReplyTo 7, Notice PleaseStart)], job_queue = []\<rparr>"
proof -
  let ?w = "demo_world ''2'' ''False'' ''False''"
  let ?u = "the (stored ?w ''7'')"
  let ?wp = "demo_world ''2'' ''True'' ''False''"
  let ?up = "the (stored ?wp ''7'')"
  let ?we = "\<lparr>users_sheet = Some [HEADERS], responses_sheet = Some [], outbox = [],
              job_queue = []\<rparr>"
  have uid: "effective_user_id demo_text = 7"
    by (simp add: demo_simps)
  have hA: "users_sheet ?w = Some (HEADERS # [demo_row ''2'' ''False'' ''False'']) \<and>
            stored ?w ''7'' = Some ?u \<and> ?u ''paused'' = Some (PBool False)"
    by (intro conjI) (simp_all add: stored_def demo_simps)
  have hB: "stored ?wp ''7'' = Some ?up \<and> ?up ''paused'' = Some (PBool True)"
    by (intro conjI) (simp_all add: stored_def demo_simps)
  have hC: "stored ?we ''7'' = None"
    by (simp add: stored_def get_user_from_sheet_def)
  have hL: "demo_lessons \<noteq> [] \<and> send_ok (demo_env True)" "outbox ?w = []" "outbox ?wp = []"
    by (simp_all add: demo_simps)
  note A = start_course_delivers_first_lesson
             [of ?w "[demo_row ''2'' ''False'' ''False'']" demo_text ?u "demo_env True"
                 demo_lessons, unfolded uid str_int_demo]
  note B = start_course_delivers_first_lesson
             [of ?wp "[]" demo_text ?up "demo_env True" demo_lessons, unfolded uid str_int_demo]
  note C = start_course_delivers_first_lesson
             [of ?we "[]" demo_text ?u "demo_env True" demo_lessons, unfolded uid str_int_demo]
  from A [THEN conjunct1, THEN mp, OF hA] obtain w1 :: world where
    "demo_lessons \<noteq> [] \<and> send_ok (demo_env True) \<longrightarrow>
       (\<exists>w' u'. handle_start_course demo_lessons (demo_env True) demo_text ?w = Inr w' \<and>
             outbox w' = outbox ?w @ [(ReplyTo 7, LessonMessage (lesson_message (demo_lessons ! 0)))] \<and>
             stored w' ''7'' = Some u' \<and> u' ''current_lesson'' = Some (PInt 0))"
    by (elim exE conjE) (rule that, assumption+)
  with hL have 1: "\<exists>w' u'. handle_start_course demo_lessons (demo_env True) demo_text ?w = Inr w' \<and>
             outbox w' = [(ReplyTo 7, LessonMessage (lesson_message (demo_lessons ! 0)))] \<and>
             stored w' ''7'' = Some u' \<and> u' ''current_lesson'' = Some (PInt 0)"
    by simp
  from B [THEN conjunct2, THEN conjunct1, THEN mp, OF hB] hL
  have 2: "handle_start_course demo_lessons (demo_env True) demo_text ?wp =
             Inr (?wp\<lparr>outbox := [(ReplyTo 7, Notice CoursePaused)]\<rparr>)"
    by simp
  from C [THEN conjunct2, THEN conjunct2, THEN mp, OF hC]
  have 3: "handle_start_course demo_lessons (demo_env True) demo_text ?we =
             Inr \<lparr>users_sheet = Some [HEADERS], responses_sheet = Some [],
                  outbox = [(ReplyTo 7, Notice PleaseStart)], job_queue = []\<rparr>"
    by simp
  from 1 2 3 show ?thesis by blast
qed

end
